theory Spec2Isabelle
  imports Complex_Main "HOL-Library.Finite_Map"
begin

section \<open>The agent decision loop of puppy/agent.py\<close>

text \<open>
  The theory embeds \<^verbatim>\<open>LLMAgent\<close> of \<^verbatim>\<open>src/puppy/agent.py\<close>. The collaborators of the agent
  (\<^verbatim>\<open>BrainDB\<close>, \<^verbatim>\<open>Portfolio\<close>, \<^verbatim>\<open>trading_reflection\<close>, the chat end point) are declared in
  other modules. A call to one of them is recorded as an event in the list \<open>calls\<close>, in the
  order in which the agent issues it, and what a collaborator returns is an input of the
  model (\<open>responses\<close>), so that every theorem holds whatever the collaborators answer.
  Collaborator calls are taken to return normally. Logging is not represented, except
  where evaluating the logged expression can raise.
\<close>

subsection \<open>Python values\<close>

text \<open>
  The values that travel through \<^verbatim>\<open>Dict[str, Any]\<close>: \<^verbatim>\<open>None\<close>, integers, strings, lists and
  dictionaries with string keys. A dictionary is a finite map, so that equality of two
  values is Python's \<^verbatim>\<open>==\<close> on them.
\<close>

datatype pyval =
    PNone
  | PInt int
  | PStr string
  | PList "pyval list"
  | PDict "(string, pyval) fmap"

type_synonym pydict = "(string, pyval) fmap"

text \<open>A Python float: the finite values, the two infinities and NaN.\<close>

datatype pyfloat = Finite real | PosInf | NegInf | NaN

text \<open>\<^verbatim>\<open>x > 0\<close> and \<^verbatim>\<open>x <= 0\<close> on a float; both are false on NaN.\<close>

fun float_gt_zero :: "pyfloat \<Rightarrow> bool" where
  "float_gt_zero (Finite x) = (0 < x)"
| "float_gt_zero PosInf = True"
| "float_gt_zero NegInf = False"
| "float_gt_zero NaN = False"

fun float_le_zero :: "pyfloat \<Rightarrow> bool" where
  "float_le_zero (Finite x) = (x \<le> 0)"
| "float_le_zero PosInf = False"
| "float_le_zero NegInf = True"
| "float_le_zero NaN = False"

text \<open>
  The configuration of the chat end point, a dictionary read from the configuration file:
  its values are strings, numbers and booleans.
\<close>

datatype cfgval = CfgStr string | CfgInt int | CfgFloat real | CfgBool bool

type_synonym chat_config = "(string, cfgval) fmap"

text \<open>A calendar date (year, month, day): the agent only uses it as a key.\<close>

type_synonym date = "nat \<times> nat \<times> nat"

datatype error =
    ValueError
  | KeyError
  | TypeError
  | FileExistsError
  | FileNotFoundError
  | NotADirectoryError
  | IsADirectoryError

text \<open>What a call does: it returns a value or raises.\<close>

datatype 'a result = Ok 'a | Raise error

text \<open>
  \<^verbatim>\<open>RunMode\<close> is declared in \<^verbatim>\<open>run_type\<close>; the entry point compares its argument with the
  members \<^verbatim>\<open>Train\<close> and \<^verbatim>\<open>Test\<close>. \<open>OtherMode\<close> stands for any other argument.
\<close>

datatype run_mode = Train | Test | OtherMode string

subsection \<open>Collaborator calls\<close>

text \<open>
  An action is the dictionary handed to \<^verbatim>\<open>Portfolio.record_action\<close>: the training path
  sets \<^verbatim>\<open>direction\<close> and \<^verbatim>\<open>quantity\<close>, the test path only \<^verbatim>\<open>direction\<close>.
\<close>

record action =
  direction :: int
  quantity :: "int option"

text \<open>The keyword arguments of \<^verbatim>\<open>trading_reflection\<close>.\<close>

record reflection_args =
  ra_cur_date :: date
  ra_symbol :: string
  ra_run_mode :: run_mode
  ra_short_memory :: "pyval list"
  ra_short_memory_id :: "pyval list"
  ra_mid_memory :: "pyval list"
  ra_mid_memory_id :: "pyval list"
  ra_long_memory :: "pyval list"
  ra_long_memory_id :: "pyval list"
  ra_reflection_memory :: "pyval list"
  ra_reflection_memory_id :: "pyval list"
  ra_future_record :: "pyfloat option option"
  ra_momentum :: "pyval option"

datatype event =
    AddMemoryMid string date pyval
  | AddMemoryLong string date pyval
  | AddMemoryShort string date pyval
  | AddMemoryReflection string date pyval
  | QueryShort string int string
  | QueryMid string int string
  | QueryLong string int string
  | QueryReflection string int string
  | GetMoment int
  | TradingReflection reflection_args
  | UpdateMarketInfo real date
  | RecordAction action
  | UpdatePortfolioSeries
  | GetFeedbackResponse
  | UpdateAccessCountWithFeedBack string "pyval list" int
  | BrainStep

text \<open>
  The feedback of \<^verbatim>\<open>Portfolio.get_feedback_response\<close>, a
  \<^verbatim>\<open>Dict[str, Union[int, date]]\<close> with the keys \<^verbatim>\<open>feedback\<close> and \<^verbatim>\<open>date\<close>, or \<^verbatim>\<open>None\<close>.
\<close>

record feedback =
  fb_feedback :: int
  fb_date :: date

text \<open>
  What the collaborators return during one step: each query returns the pair (texts,
  identifiers), \<^verbatim>\<open>get_moment\<close> a dictionary or \<^verbatim>\<open>None\<close>, \<^verbatim>\<open>trading_reflection\<close> a
  \<^verbatim>\<open>Dict[str, Any]\<close>, \<^verbatim>\<open>get_feedback_response\<close> a feedback or \<^verbatim>\<open>None\<close>.
\<close>

record responses =
  r_query_short :: "pyval list \<times> pyval list"
  r_query_mid :: "pyval list \<times> pyval list"
  r_query_long :: "pyval list \<times> pyval list"
  r_query_reflection :: "pyval list \<times> pyval list"
  r_get_moment :: "pydict option"
  r_trading_reflection :: pydict
  r_get_feedback_response :: "feedback option"

subsection \<open>The agent\<close>

text \<open>
  The attributes of \<^verbatim>\<open>LLMAgent\<close>. The brain, the portfolio, the chat end point and its
  guardrail end point are objects of other modules: \<open>'b\<close>, \<open>'p\<close>, \<open>'c\<close> and \<open>'g\<close>.
\<close>

record ('b, 'p, 'c, 'g) agent =
  counter :: int
  top_k :: int
  agent_name :: string
  trading_symbol :: string
  character_string :: string
  chat_end_point_name :: string
  chat_end_point_config :: chat_config
  look_back_window_size :: int
  brain :: 'b
  portfolio :: 'p
  chat_end_point :: 'c
  guardrail_endpoint :: 'g
  reflection_result_series_dict :: "(date, pydict) fmap"
  access_counter :: "(pyval, int) fmap"

text \<open>The agent together with the collaborator calls issued so far.\<close>

record ('b, 'p, 'c, 'g) world =
  self :: "('b, 'p, 'c, 'g) agent"
  calls :: "event list"

definition emit :: "event \<Rightarrow> ('b, 'p, 'c, 'g) world \<Rightarrow> ('b, 'p, 'c, 'g) world" where
  "emit e w = w\<lparr>calls := calls w @ [e]\<rparr>"

text \<open>
  \<^verbatim>\<open>market_info\<close> is the tuple (cur_date, cur_price, filing_k, filing_q, news, cur_record,
  done_flag).
\<close>

type_synonym market_info = "date \<times> real \<times> pyval \<times> pyval \<times> pyval \<times> pyfloat option \<times> bool"

subsection \<open>Ingestion\<close>

definition handling_filings ::
  "date \<Rightarrow> pyval \<Rightarrow> pyval \<Rightarrow> ('b, 'p, 'c, 'g) world \<Rightarrow> ('b, 'p, 'c, 'g) world" where
  "handling_filings cur_date filing_q filing_k w =
     (let w1 = (if filing_q \<noteq> PDict fmempty
                then emit (AddMemoryMid (trading_symbol (self w)) cur_date filing_q) w
                else w)
      in (if filing_k \<noteq> PDict fmempty
          then emit (AddMemoryLong (trading_symbol (self w1)) cur_date filing_k) w1
          else w1))"

definition handling_news ::
  "date \<Rightarrow> pyval \<Rightarrow> ('b, 'p, 'c, 'g) world \<Rightarrow> ('b, 'p, 'c, 'g) world" where
  "handling_news cur_date news w =
     (if news \<noteq> PDict fmempty
      then emit (AddMemoryShort (trading_symbol (self w)) cur_date news) w
      else w)"

subsection \<open>Retrieval and reflection\<close>

text \<open>
  The tuple returned by \<^verbatim>\<open>__query_info_for_reflection\<close>: eight components, and a ninth
  (\<open>q_moment\<close>) in test mode only.
\<close>

record queried =
  q_short :: "pyval list"
  q_short_id :: "pyval list"
  q_mid :: "pyval list"
  q_mid_id :: "pyval list"
  q_long :: "pyval list"
  q_long_id :: "pyval list"
  q_reflection :: "pyval list"
  q_reflection_id :: "pyval list"
  q_moment :: "pyval option"

definition query_info_for_reflection ::
  "run_mode \<Rightarrow> responses \<Rightarrow> ('b, 'p, 'c, 'g) world \<Rightarrow> queried result \<times> ('b, 'p, 'c, 'g) world" where
  "query_info_for_reflection rm resp w =
     (let a = self w;
          w1 = emit (QueryShort (character_string a) (top_k a) (trading_symbol a)) w;
          w2 = emit (QueryMid (character_string a) (top_k a) (trading_symbol a)) w1;
          w3 = emit (QueryLong (character_string a) (top_k a) (trading_symbol a)) w2;
          w4 = emit (QueryReflection (character_string a) (top_k a) (trading_symbol a)) w3;
          q = \<lparr>q_short = fst (r_query_short resp), q_short_id = snd (r_query_short resp),
               q_mid = fst (r_query_mid resp), q_mid_id = snd (r_query_mid resp),
               q_long = fst (r_query_long resp), q_long_id = snd (r_query_long resp),
               q_reflection = fst (r_query_reflection resp),
               q_reflection_id = snd (r_query_reflection resp),
               q_moment = None\<rparr>
      in if rm = Test then
           (let w5 = emit (GetMoment 2) w4
            in case r_get_moment resp of
                 None \<Rightarrow> (Ok (q\<lparr>q_moment := Some PNone\<rparr>), w5)
               | Some d \<Rightarrow>
                   (case fmlookup d ''moment'' of
                      None \<Rightarrow> (Raise KeyError, w5)
                    | Some m \<Rightarrow> (Ok (q\<lparr>q_moment := Some m\<rparr>), w5)))
         else (Ok q, w4))"

text \<open>
  \<^verbatim>\<open>__reflection_on_record\<close>. Outside train mode the nine names are unpacked from the
  returned tuple, which has nine components in test mode only.
\<close>

definition reflection_on_record ::
  "date \<Rightarrow> run_mode \<Rightarrow> pyfloat option \<Rightarrow> responses \<Rightarrow> ('b, 'p, 'c, 'g) world
     \<Rightarrow> pydict result \<times> ('b, 'p, 'c, 'g) world" where
  "reflection_on_record cur_date rm cur_record resp w =
     (case query_info_for_reflection rm resp w of
        (Raise e, w1) \<Rightarrow> (Raise e, w1)
      | (Ok q, w1) \<Rightarrow>
          (let args = \<lparr>ra_cur_date = cur_date, ra_symbol = trading_symbol (self w1),
                       ra_run_mode = rm,
                       ra_short_memory = q_short q, ra_short_memory_id = q_short_id q,
                       ra_mid_memory = q_mid q, ra_mid_memory_id = q_mid_id q,
                       ra_long_memory = q_long q, ra_long_memory_id = q_long_id q,
                       ra_reflection_memory = q_reflection q,
                       ra_reflection_memory_id = q_reflection_id q,
                       ra_future_record = None, ra_momentum = None\<rparr>;
               called =
                 (if rm = Train
                  then Ok (args\<lparr>ra_future_record := Some cur_record\<rparr>)
                  else (case q_moment q of
                          None \<Rightarrow> Raise ValueError
                        | Some m \<Rightarrow> Ok (args\<lparr>ra_momentum := Some m\<rparr>)))
           in case called of
                Raise e \<Rightarrow> (Raise e, w1)
              | Ok args' \<Rightarrow>
                  (let w2 = emit (TradingReflection args') w1;
                       reflection_result = r_trading_reflection resp
                   in case (if reflection_result \<noteq> fmempty
                            then fmlookup reflection_result ''summary_reason'' else None) of
                        Some text \<Rightarrow>
                          (Ok reflection_result,
                           emit (AddMemoryReflection (trading_symbol (self w2)) cur_date text) w2)
                      | None \<Rightarrow> (Ok reflection_result, w2))))"

text \<open>
  \<^verbatim>\<open>_reflect\<close> stores the result under the date, then logs. In test mode the logged text
  reads \<^verbatim>\<open>reflection_result_cur_date['investment_decision']\<close> of a non-empty result.
\<close>

definition reflect ::
  "date \<Rightarrow> run_mode \<Rightarrow> pyfloat option \<Rightarrow> responses \<Rightarrow> ('b, 'p, 'c, 'g) world
     \<Rightarrow> unit result \<times> ('b, 'p, 'c, 'g) world" where
  "reflect cur_date rm cur_record resp w =
     (case reflection_on_record cur_date rm cur_record resp w of
        (Raise e, w1) \<Rightarrow> (Raise e, w1)
      | (Ok reflection_result_cur_date, w1) \<Rightarrow>
          (let w2 = w1\<lparr>self := (self w1)\<lparr>reflection_result_series_dict :=
                       fmupd cur_date reflection_result_cur_date
                         (reflection_result_series_dict (self w1))\<rparr>\<rparr>
           in if rm = Train then (Ok (), w2)
              else if rm = Test then
                (if reflection_result_cur_date \<noteq> fmempty
                 then (case fmlookup reflection_result_cur_date ''investment_decision'' of
                         None \<Rightarrow> (Raise KeyError, w2)
                       | Some _ \<Rightarrow> (Ok (), w2))
                 else (Ok (), w2))
              else (Ok (), w2)))"

subsection \<open>Action derivation\<close>

text \<open>\<^verbatim>\<open>cur_record > 0\<close> raises on \<^verbatim>\<open>None\<close>.\<close>

definition construct_train_actions :: "pyfloat option \<Rightarrow> action result" where
  "construct_train_actions cur_record =
     (case cur_record of
        None \<Rightarrow> Raise TypeError
      | Some r \<Rightarrow>
          (let cur_direction = (if float_gt_zero r then 1 else -1)
           in Ok \<lparr>direction = cur_direction, quantity = Some 1\<rparr>))"

definition portfolio_step ::
  "action \<Rightarrow> ('b, 'p, 'c, 'g) world \<Rightarrow> ('b, 'p, 'c, 'g) world" where
  "portfolio_step cur_actions w = emit UpdatePortfolioSeries (emit (RecordAction cur_actions) w)"

text \<open>
  The test \<^verbatim>\<open>test_reflection_result and test_reflection_result["investment_decision"] == s\<close>:
  the subscript is evaluated on a non-empty result only, and raises when the key is
  missing.
\<close>

definition decision_is :: "pydict \<Rightarrow> string \<Rightarrow> bool result" where
  "decision_is test_reflection_result s =
     (if test_reflection_result = fmempty then Ok False
      else (case fmlookup test_reflection_result ''investment_decision'' of
              None \<Rightarrow> Raise KeyError
            | Some v \<Rightarrow> Ok (v = PStr s)))"

definition process_test_action :: "pydict \<Rightarrow> action result" where
  "process_test_action test_reflection_result =
     (case decision_is test_reflection_result ''buy'' of
        Raise e \<Rightarrow> Raise e
      | Ok True \<Rightarrow> Ok \<lparr>direction = 1, quantity = None\<rparr>
      | Ok False \<Rightarrow>
          (case decision_is test_reflection_result ''hold'' of
             Raise e \<Rightarrow> Raise e
           | Ok True \<Rightarrow> Ok \<lparr>direction = 0, quantity = None\<rparr>
           | Ok False \<Rightarrow>
               (case decision_is test_reflection_result ''sell'' of
                  Raise e \<Rightarrow> Raise e
                | Ok True \<Rightarrow> Ok \<lparr>direction = - 1, quantity = None\<rparr>
                | Ok False \<Rightarrow> Ok \<lparr>direction = 0, quantity = None\<rparr>)))"

subsection \<open>Reinforcement\<close>

text \<open>\<^verbatim>\<open>i["memory_index"]\<close>: only a dictionary takes a string subscript.\<close>

fun memory_index_of :: "pyval \<Rightarrow> pyval result" where
  "memory_index_of (PDict d) =
     (case fmlookup d ''memory_index'' of None \<Rightarrow> Raise KeyError | Some v \<Rightarrow> Ok v)"
| "memory_index_of _ = Raise TypeError"

text \<open>The loop of \<^verbatim>\<open>__update_access_counter_sub\<close> over the items, \<open>cur_ids\<close> accumulated.\<close>

fun collect_ids :: "pyval list \<Rightarrow> pyval list \<Rightarrow> pyval list result" where
  "collect_ids [] cur_ids = Ok cur_ids"
| "collect_ids (i # rest) cur_ids =
     (case memory_index_of i of
        Raise e \<Rightarrow> Raise e
      | Ok cur_id \<Rightarrow>
          collect_ids rest (if cur_id \<notin> set cur_ids then cur_ids @ [cur_id] else cur_ids))"

text \<open>
  \<^verbatim>\<open>for i in cur_memory[layer_index_name]\<close> on each kind of value. A string yields its
  characters as strings. A dictionary yields its keys, which are strings: the subscript
  raises on the first one, whichever it is, and an empty dictionary yields nothing.
\<close>

fun tier_ids :: "pyval \<Rightarrow> pyval list result" where
  "tier_ids (PList items) = collect_ids items []"
| "tier_ids (PStr s) = collect_ids (map (\<lambda>c. PStr [c]) s) []"
| "tier_ids (PDict d) = (if d = fmempty then Ok [] else Raise TypeError)"
| "tier_ids PNone = Raise TypeError"
| "tier_ids (PInt n) = Raise TypeError"

definition update_access_counter_sub ::
  "pydict \<Rightarrow> string \<Rightarrow> feedback \<Rightarrow> ('b, 'p, 'c, 'g) world
     \<Rightarrow> unit result \<times> ('b, 'p, 'c, 'g) world" where
  "update_access_counter_sub cur_memory layer_index_name fb w =
     (case fmlookup cur_memory layer_index_name of
        None \<Rightarrow> (Raise KeyError, w)
      | Some v \<Rightarrow>
          (case tier_ids v of
             Raise e \<Rightarrow> (Raise e, w)
           | Ok cur_ids \<Rightarrow>
               (Ok (),
                emit (UpdateAccessCountWithFeedBack (trading_symbol (self w)) cur_ids
                        (fb_feedback fb)) w)))"

definition update_short_memory_access_counter ::
  "feedback \<Rightarrow> pydict \<Rightarrow> ('b, 'p, 'c, 'g) world \<Rightarrow> unit result \<times> ('b, 'p, 'c, 'g) world" where
  "update_short_memory_access_counter fb cur_memory w =
     (if ''short_memory_index'' |\<in>| fmdom cur_memory
      then update_access_counter_sub cur_memory ''short_memory_index'' fb w
      else (Ok (), w))"

definition update_mid_memory_access_counter ::
  "feedback \<Rightarrow> pydict \<Rightarrow> ('b, 'p, 'c, 'g) world \<Rightarrow> unit result \<times> ('b, 'p, 'c, 'g) world" where
  "update_mid_memory_access_counter fb cur_memory w =
     (if ''middle_memory_index'' |\<in>| fmdom cur_memory
      then update_access_counter_sub cur_memory ''middle_memory_index'' fb w
      else (Ok (), w))"

definition update_long_memory_access_counter ::
  "feedback \<Rightarrow> pydict \<Rightarrow> ('b, 'p, 'c, 'g) world \<Rightarrow> unit result \<times> ('b, 'p, 'c, 'g) world" where
  "update_long_memory_access_counter fb cur_memory w =
     (if ''long_memory_index'' |\<in>| fmdom cur_memory
      then update_access_counter_sub cur_memory ''long_memory_index'' fb w
      else (Ok (), w))"

definition update_reflection_memory_access_counter ::
  "feedback \<Rightarrow> pydict \<Rightarrow> ('b, 'p, 'c, 'g) world \<Rightarrow> unit result \<times> ('b, 'p, 'c, 'g) world" where
  "update_reflection_memory_access_counter fb cur_memory w =
     (if ''reflection_memory_index'' |\<in>| fmdom cur_memory
      then update_access_counter_sub cur_memory ''reflection_memory_index'' fb w
      else (Ok (), w))"

text \<open>
  \<^verbatim>\<open>_update_access_counter\<close>: the feedback is asked of the portfolio; a feedback that is
  \<^verbatim>\<open>None\<close> ends the phase, and so does a zero \<^verbatim>\<open>feedback["feedback"]\<close>. Otherwise the
  record of \<^verbatim>\<open>feedback["date"]\<close> is looked up (a missing key raises) and the four tiers
  are visited in turn; an exception in one of them ends the phase there.
\<close>

definition update_access_counter ::
  "responses \<Rightarrow> ('b, 'p, 'c, 'g) world \<Rightarrow> unit result \<times> ('b, 'p, 'c, 'g) world" where
  "update_access_counter resp w =
     (let w0 = emit GetFeedbackResponse w
      in case r_get_feedback_response resp of
           None \<Rightarrow> (Ok (), w0)
         | Some fb \<Rightarrow>
             (if fb_feedback fb \<noteq> 0 then
                (case fmlookup (reflection_result_series_dict (self w0)) (fb_date fb) of
                   None \<Rightarrow> (Raise KeyError, w0)
                 | Some cur_memory \<Rightarrow>
                     (case update_short_memory_access_counter fb cur_memory w0 of
                        (Raise e, w1) \<Rightarrow> (Raise e, w1)
                      | (Ok _, w1) \<Rightarrow>
                     (case update_mid_memory_access_counter fb cur_memory w1 of
                        (Raise e, w2) \<Rightarrow> (Raise e, w2)
                      | (Ok _, w2) \<Rightarrow>
                     (case update_long_memory_access_counter fb cur_memory w2 of
                        (Raise e, w3) \<Rightarrow> (Raise e, w3)
                      | (Ok _, w3) \<Rightarrow>
                          update_reflection_memory_access_counter fb cur_memory w3))))
              else (Ok (), w0)))"

subsection \<open>One step\<close>

definition step ::
  "market_info \<Rightarrow> run_mode \<Rightarrow> responses \<Rightarrow> ('b, 'p, 'c, 'g) world
     \<Rightarrow> unit result \<times> ('b, 'p, 'c, 'g) world" where
  "step market_info rm resp w =
     (if rm \<notin> set [Train, Test] then (Raise ValueError, w)
      else
        (case market_info of
           (cur_date, cur_price, cur_filing_k, cur_filing_q, cur_news, cur_record, done) \<Rightarrow>
             if done then (Ok (), w)
             else
               (let w1 = handling_filings cur_date cur_filing_q cur_filing_k w;
                    w2 = handling_news cur_date cur_news w1;
                    w3 = emit (UpdateMarketInfo cur_price cur_date) w2
                in case reflect cur_date rm cur_record resp w3 of
                     (Raise e, w4) \<Rightarrow> (Raise e, w4)
                   | (Ok _, w4) \<Rightarrow>
                       (case (if rm = Train then construct_train_actions cur_record
                              else (case fmlookup (reflection_result_series_dict (self w4))
                                           cur_date of
                                      None \<Rightarrow> Raise KeyError
                                    | Some r \<Rightarrow> process_test_action r)) of
                          Raise e \<Rightarrow> (Raise e, w4)
                        | Ok cur_action \<Rightarrow>
                            (let w5 = portfolio_step cur_action w4
                             in case update_access_counter resp w5 of
                                  (Raise e, w6) \<Rightarrow> (Raise e, w6)
                                | (Ok _, w6) \<Rightarrow> (Ok (), emit BrainStep w6))))))"

subsection \<open>Construction and checkpoints\<close>

text \<open>
  What the agent uses of the other modules when it is built, saved and restored: the
  constructor of \<^verbatim>\<open>Portfolio\<close>, \<^verbatim>\<open>get_chat_end_points\<close>, the method
  \<^verbatim>\<open>guardrail_endpoint\<close> of the chat end point, and the checkpoint routines of \<^verbatim>\<open>BrainDB\<close>.

  A path is the list of its components, \<open>[]\<close> the directory the paths start from;
  \<^verbatim>\<open>os.path.join(path, name)\<close> appends the component \<open>name\<close>. The file system holds the
  directories and the pickled state dictionaries in \<open>tree\<close>, and what \<^verbatim>\<open>BrainDB\<close> keeps of
  its own in \<open>brain_files\<close>.
\<close>

record ('p, 'c) state_dict =
  sd_agent_name :: string
  sd_character_string :: string
  sd_top_k :: int
  sd_counter :: int
  sd_trading_symbol :: string
  sd_chat_end_point_name :: string
  sd_chat_end_point_config :: chat_config
  sd_portfolio :: 'p
  sd_chat_end_point :: 'c
  sd_reflection_result_series_dict :: "(date, pydict) fmap"
  sd_access_counter :: "(pyval, int) fmap"

type_synonym path = "string list"

datatype ('p, 'c) node = Dir | StateDictFile "('p, 'c) state_dict"

record ('p, 'c, 's) fs =
  tree :: "(path, ('p, 'c) node) fmap"
  brain_files :: 's

record ('b, 'p, 'c, 'g, 's) externals =
  new_portfolio :: "string \<Rightarrow> int \<Rightarrow> 'p"
  get_chat_end_points :: "string \<Rightarrow> chat_config \<Rightarrow> 'c"
  guardrail_endpoint_of :: "'c \<Rightarrow> 'g"
  brain_save_checkpoint :: "'b \<Rightarrow> path \<Rightarrow> bool \<Rightarrow> ('p, 'c, 's) fs \<Rightarrow> unit result \<times> ('p, 'c, 's) fs"
  brain_load_checkpoint :: "path \<Rightarrow> ('p, 'c, 's) fs \<Rightarrow> 'b result"

text \<open>The default arguments of \<^verbatim>\<open>__init__\<close>.\<close>

definition default_chat_end_point_config :: chat_config where
  "default_chat_end_point_config =
     fmap_of_list [(''model_name'', CfgStr ''gpt-4''), (''temperature'', CfgFloat (7 / 10))]"

definition default_look_back_window_size :: int where
  "default_look_back_window_size = 7"

definition init ::
  "('b, 'p, 'c, 'g, 's) externals \<Rightarrow> string \<Rightarrow> string \<Rightarrow> string \<Rightarrow> 'b \<Rightarrow> int \<Rightarrow> string
     \<Rightarrow> chat_config option \<Rightarrow> int \<Rightarrow> ('b, 'p, 'c, 'g) agent" where
  "init ext name symbol character brain_db k end_point_name end_point_config window =
     (let config = (case end_point_config of
                      None \<Rightarrow> default_chat_end_point_config
                    | Some c \<Rightarrow> c);
          end_point = get_chat_end_points ext end_point_name config
      in \<lparr>counter = 1,
          top_k = k,
          agent_name = name,
          trading_symbol = symbol,
          character_string = character,
          chat_end_point_name = end_point_name,
          chat_end_point_config = config,
          look_back_window_size = window,
          brain = brain_db,
          portfolio = new_portfolio ext symbol window,
          chat_end_point = end_point,
          guardrail_endpoint = guardrail_endpoint_of ext end_point,
          reflection_result_series_dict = fmempty,
          access_counter = fmempty\<rparr>)"

definition path_exists :: "('p, 'c, 's) fs \<Rightarrow> path \<Rightarrow> bool" where
  "path_exists f p = (p = [] \<or> fmlookup (tree f) p \<noteq> None)"

definition is_dir :: "('p, 'c, 's) fs \<Rightarrow> path \<Rightarrow> bool" where
  "is_dir f p = (p = [] \<or> fmlookup (tree f) p = Some Dir)"

text \<open>\<^verbatim>\<open>shutil.rmtree\<close> removes a directory and everything below it.\<close>

definition shutil_rmtree :: "path \<Rightarrow> ('p, 'c, 's) fs \<Rightarrow> unit result \<times> ('p, 'c, 's) fs" where
  "shutil_rmtree p f =
     (if \<not> path_exists f p then (Raise FileNotFoundError, f)
      else if \<not> is_dir f p then (Raise NotADirectoryError, f)
      else (Ok (), f\<lparr>tree := fmfilter (\<lambda>q. take (length p) q \<noteq> p) (tree f)\<rparr>))"

definition os_mkdir :: "path \<Rightarrow> ('p, 'c, 's) fs \<Rightarrow> unit result \<times> ('p, 'c, 's) fs" where
  "os_mkdir p f =
     (if path_exists f p then (Raise FileExistsError, f)
      else if \<not> path_exists f (butlast p) then (Raise FileNotFoundError, f)
      else if \<not> is_dir f (butlast p) then (Raise NotADirectoryError, f)
      else (Ok (), f\<lparr>tree := fmupd p Dir (tree f)\<rparr>))"

text \<open>\<^verbatim>\<open>open(p, "wb")\<close> followed by \<^verbatim>\<open>pickle.dump\<close>.\<close>

definition dump_state_dict ::
  "path \<Rightarrow> ('p, 'c) state_dict \<Rightarrow> ('p, 'c, 's) fs \<Rightarrow> unit result \<times> ('p, 'c, 's) fs" where
  "dump_state_dict p sd f =
     (if is_dir f p then (Raise IsADirectoryError, f)
      else if \<not> path_exists f (butlast p) then (Raise FileNotFoundError, f)
      else if \<not> is_dir f (butlast p) then (Raise NotADirectoryError, f)
      else (Ok (), f\<lparr>tree := fmupd p (StateDictFile sd) (tree f)\<rparr>))"

text \<open>\<^verbatim>\<open>open(p, "rb")\<close> followed by \<^verbatim>\<open>pickle.load\<close>.\<close>

definition load_state_dict :: "path \<Rightarrow> ('p, 'c, 's) fs \<Rightarrow> ('p, 'c) state_dict result" where
  "load_state_dict p f =
     (if p = [] then Raise IsADirectoryError
      else (case fmlookup (tree f) p of
              None \<Rightarrow> Raise FileNotFoundError
            | Some Dir \<Rightarrow> Raise IsADirectoryError
            | Some (StateDictFile sd) \<Rightarrow> Ok sd))"

definition save_checkpoint ::
  "('b, 'p, 'c, 'g, 's) externals \<Rightarrow> path \<Rightarrow> bool \<Rightarrow> ('b, 'p, 'c, 'g) agent \<Rightarrow> ('p, 'c, 's) fs
     \<Rightarrow> unit result \<times> ('p, 'c, 's) fs" where
  "save_checkpoint ext path0 force a f =
     (let path = path0 @ [agent_name a]
      in case (if path_exists f path
               then (if force then shutil_rmtree path f else (Raise FileExistsError, f))
               else (Ok (), f)) of
           (Raise e, f1) \<Rightarrow> (Raise e, f1)
         | (Ok _, f1) \<Rightarrow>
        (case os_mkdir path f1 of
           (Raise e, f2) \<Rightarrow> (Raise e, f2)
         | (Ok _, f2) \<Rightarrow>
        (case os_mkdir (path @ [''brain'']) f2 of
           (Raise e, f3) \<Rightarrow> (Raise e, f3)
         | (Ok _, f3) \<Rightarrow>
        (let state_dict =
               \<lparr>sd_agent_name = agent_name a,
                sd_character_string = character_string a,
                sd_top_k = top_k a,
                sd_counter = counter a,
                sd_trading_symbol = trading_symbol a,
                sd_chat_end_point_name = chat_end_point_name a,
                sd_chat_end_point_config = chat_end_point_config a,
                sd_portfolio = portfolio a,
                sd_chat_end_point = chat_end_point a,
                sd_reflection_result_series_dict = reflection_result_series_dict a,
                sd_access_counter = access_counter a\<rparr>
         in case dump_state_dict (path @ [''state_dict.pkl'']) state_dict f3 of
              (Raise e, f4) \<Rightarrow> (Raise e, f4)
            | (Ok _, f4) \<Rightarrow>
                brain_save_checkpoint ext (brain a) (path @ [''brain'']) force f4))))"

text \<open>
  \<^verbatim>\<open>load_checkpoint\<close> calls the constructor without \<^verbatim>\<open>look_back_window_size\<close>, which
  takes its default, and then overwrites five attributes from the state dictionary.
\<close>

definition load_checkpoint ::
  "('b, 'p, 'c, 'g, 's) externals \<Rightarrow> path \<Rightarrow> ('p, 'c, 's) fs \<Rightarrow> ('b, 'p, 'c, 'g) agent result" where
  "load_checkpoint ext path f =
     (case load_state_dict (path @ [''state_dict.pkl'']) f of
        Raise e \<Rightarrow> Raise e
      | Ok state_dict \<Rightarrow>
          (case brain_load_checkpoint ext (path @ [''brain'']) f of
             Raise e \<Rightarrow> Raise e
           | Ok brain_db \<Rightarrow>
               (let class_obj =
                      init ext (sd_agent_name state_dict) (sd_trading_symbol state_dict)
                        (sd_character_string state_dict) brain_db (sd_top_k state_dict)
                        (sd_chat_end_point_name state_dict)
                        (Some (sd_chat_end_point_config state_dict))
                        default_look_back_window_size
                in Ok (class_obj
                        \<lparr>chat_end_point := sd_chat_end_point state_dict,
                         portfolio := sd_portfolio state_dict,
                         reflection_result_series_dict :=
                           sd_reflection_result_series_dict state_dict,
                         access_counter := sd_access_counter state_dict,
                         counter := sd_counter state_dict\<rparr>))))"

section \<open>Observing the collaborator calls\<close>

text \<open>The calls issued between two worlds, the later one extending the earlier.\<close>

definition new_calls :: "('b, 'p, 'c, 'g) world \<Rightarrow> ('b, 'p, 'c, 'g) world \<Rightarrow> event list" where
  "new_calls w w' = drop (length (calls w)) (calls w')"

text \<open>Writes of a document payload to the Mid, Long or Short tier.\<close>

fun is_doc_write :: "event \<Rightarrow> bool" where
  "is_doc_write (AddMemoryMid _ _ _) = True"
| "is_doc_write (AddMemoryLong _ _ _) = True"
| "is_doc_write (AddMemoryShort _ _ _) = True"
| "is_doc_write _ = False"

text \<open>The calls of the retrieval and reflection phases.\<close>

fun reflect_event :: "event \<Rightarrow> bool" where
  "reflect_event (QueryShort _ _ _) = True"
| "reflect_event (QueryMid _ _ _) = True"
| "reflect_event (QueryLong _ _ _) = True"
| "reflect_event (QueryReflection _ _ _) = True"
| "reflect_event (GetMoment _) = True"
| "reflect_event (TradingReflection _) = True"
| "reflect_event (AddMemoryReflection _ _ _) = True"
| "reflect_event _ = False"

fun is_record_action :: "event \<Rightarrow> bool" where
  "is_record_action (RecordAction _) = True"
| "is_record_action _ = False"

text \<open>Reinforcement calls: \<^verbatim>\<open>BrainDB.update_access_count_with_feed_back\<close>.\<close>

fun is_reinforcement :: "event \<Rightarrow> bool" where
  "is_reinforcement (UpdateAccessCountWithFeedBack _ _ _) = True"
| "is_reinforcement _ = False"

text \<open>The writes of the ingestion phase, in the order of the source.\<close>

definition ingest_calls :: "string \<Rightarrow> date \<Rightarrow> pyval \<Rightarrow> pyval \<Rightarrow> pyval \<Rightarrow> event list" where
  "ingest_calls symb d fq fk news =
     (if fq \<noteq> PDict fmempty then [AddMemoryMid symb d fq] else []) @
     (if fk \<noteq> PDict fmempty then [AddMemoryLong symb d fk] else []) @
     (if news \<noteq> PDict fmempty then [AddMemoryShort symb d news] else [])"

text \<open>
  The keys under which a reasoning result records the items consulted in the Short, Mid,
  Long and Reflection tier, in the order in which the reinforcement phase visits them.
\<close>

definition tier_keys :: "string list" where
  "tier_keys = [''short_memory_index'', ''middle_memory_index'', ''long_memory_index'',
                ''reflection_memory_index'']"

text \<open>
  The identifiers recorded in a tier entry: the entry is a list of items, each a
  dictionary with the key \<^verbatim>\<open>memory_index\<close>. An entry of another shape records none
  (\<open>None\<close>).
\<close>

fun item_id :: "pyval \<Rightarrow> pyval option" where
  "item_id (PDict d) = fmlookup d ''memory_index''"
| "item_id _ = None"

fun recorded_ids :: "pyval \<Rightarrow> pyval list option" where
  "recorded_ids (PList items) = those (map item_id items)"
| "recorded_ids _ = None"

text \<open>The recorded identifiers with duplicates removed, each at its first occurrence.\<close>

definition deduplicated_ids :: "pyval \<Rightarrow> pyval list" where
  "deduplicated_ids v =
     (case recorded_ids v of None \<Rightarrow> [] | Some ids \<Rightarrow> rev (remdups (rev ids)))"

text \<open>
  The reinforcement calls expected for one tier key: none when the record has no such key,
  otherwise one call with the deduplicated identifiers and the magnitude.
\<close>

definition tier_call :: "string \<Rightarrow> int \<Rightarrow> pydict \<Rightarrow> string \<Rightarrow> event list" where
  "tier_call symb magnitude cur_memory k =
     (case fmlookup cur_memory k of
        None \<Rightarrow> []
      | Some v \<Rightarrow> [UpdateAccessCountWithFeedBack symb (deduplicated_ids v) magnitude])"

section \<open>Example values\<close>

text \<open>An agent, a world and collaborator answers on which the theorems are instantiated.\<close>

definition example_agent :: "(unit, unit, unit, unit) agent" where
  "example_agent =
     \<lparr>counter = 1, top_k = 5, agent_name = ''agent_1'', trading_symbol = ''TSLA'',
      character_string = ''a cautious investor'', chat_end_point_name = ''openai'',
      chat_end_point_config = default_chat_end_point_config, look_back_window_size = 3,
      brain = (), portfolio = (), chat_end_point = (), guardrail_endpoint = (),
      reflection_result_series_dict = fmempty, access_counter = fmempty\<rparr>"

definition example_world :: "(unit, unit, unit, unit) world" where
  "example_world = \<lparr>self = example_agent, calls = []\<rparr>"

text \<open>The queries find nothing, the reasoning result is empty, no feedback is pending.\<close>

definition quiet_responses :: responses where
  "quiet_responses =
     \<lparr>r_query_short = ([], []), r_query_mid = ([], []), r_query_long = ([], []),
      r_query_reflection = ([], []), r_get_moment = None,
      r_trading_reflection = fmempty, r_get_feedback_response = None\<rparr>"

text \<open>The market information of 2024-01-02: no filings, one news item, outcome +0.5.\<close>

definition example_market_info :: "bool \<Rightarrow> market_info" where
  "example_market_info done =
     ((2024, 1, 2), 250, PDict fmempty, PDict fmempty, PList [PStr ''rate hike''],
      Some (Finite (1 / 2)), done)"

text \<open>
  A world in which the reflection of 2024-01-02 is stored: it consulted the Short tier
  items s1, s2 and s1 again, and no item of another tier.
\<close>

definition memory_item :: "string \<Rightarrow> pyval" where
  "memory_item i = PDict (fmupd ''memory_index'' (PStr i) fmempty)"

definition reflected_world :: "(unit, unit, unit, unit) world" where
  "reflected_world =
     example_world\<lparr>self := example_agent\<lparr>reflection_result_series_dict :=
        fmupd (2024, 1, 2)
          (fmupd ''short_memory_index''
             (PList [memory_item ''s1'', memory_item ''s2'', memory_item ''s1''])
             (fmupd ''summary_reason'' (PStr ''rates are rising'') fmempty))
          fmempty\<rparr>\<rparr>"

text \<open>A world whose stored reflection has a Short tier entry with no item.\<close>

definition empty_tier_world :: "(unit, unit, unit, unit) world" where
  "empty_tier_world =
     example_world\<lparr>self := example_agent\<lparr>reflection_result_series_dict :=
        fmupd (2024, 1, 2) (fmupd ''short_memory_index'' (PList []) fmempty) fmempty\<rparr>\<rparr>"

text \<open>Answers with a pending feedback; answers with a reasoning result.\<close>

definition feedback_responses :: "int \<Rightarrow> date \<Rightarrow> responses" where
  "feedback_responses magnitude d =
     quiet_responses\<lparr>r_get_feedback_response := Some \<lparr>fb_feedback = magnitude, fb_date = d\<rparr>\<rparr>"

definition decided_responses :: "string \<Rightarrow> responses" where
  "decided_responses label =
     quiet_responses\<lparr>r_trading_reflection :=
        fmupd ''investment_decision'' (PStr label)
          (fmupd ''summary_reason'' (PStr ''rates are rising'') fmempty)\<rparr>"

definition undecided_responses :: responses where
  "undecided_responses =
     quiet_responses\<lparr>r_trading_reflection :=
        fmupd ''summary_reason'' (PStr ''rates are rising'') fmempty\<rparr>"

text \<open>
  Collaborators for checkpoints: the brain keeps its checkpoint under the path it is
  given, in its own part of the file system.
\<close>

definition example_externals ::
  "(unit, unit, unit, unit, (path, unit) fmap) externals" where
  "example_externals =
     \<lparr>new_portfolio = (\<lambda>symbol window. ()),
      get_chat_end_points = (\<lambda>name config. ()),
      guardrail_endpoint_of = (\<lambda>end_point. ()),
      brain_save_checkpoint = (\<lambda>b p force f. (Ok (), f\<lparr>brain_files := fmupd p b (brain_files f)\<rparr>)),
      brain_load_checkpoint = (\<lambda>p f. case fmlookup (brain_files f) p of
                                        None \<Rightarrow> Raise FileNotFoundError
                                      | Some b \<Rightarrow> Ok b)\<rparr>"

definition empty_fs :: "(unit, unit, (path, unit) fmap) fs" where
  "empty_fs = \<lparr>tree = fmempty, brain_files = fmempty\<rparr>"

section \<open>Properties\<close>

subsection \<open>The calls and the state of each phase\<close>

lemma calls_emit [simp]: "calls (emit e w) = calls w @ [e]"
  by (simp add: emit_def)

lemma self_emit [simp]: "self (emit e w) = self w"
  by (simp add: emit_def)

lemma new_calls_append [simp]: "calls w' = calls w @ xs \<Longrightarrow> new_calls w w' = xs"
  by (simp add: new_calls_def)

lemma new_calls_same [simp]: "new_calls w w = []"
  by (simp add: new_calls_def)

lemma filter_none: "list_all P xs \<Longrightarrow> (\<And>e. P e \<Longrightarrow> \<not> Q e) \<Longrightarrow> filter Q xs = []"
  by (induction xs) auto

lemma reflect_event_kinds:
  "reflect_event e \<Longrightarrow> \<not> is_doc_write e"
  "reflect_event e \<Longrightarrow> \<not> is_record_action e"
  "reflect_event e \<Longrightarrow> \<not> is_reinforcement e"
  "reflect_event e \<Longrightarrow> e \<noteq> GetFeedbackResponse"
  "reflect_event e \<Longrightarrow> e \<noteq> BrainStep"
  by (cases e; simp)+

lemma reinforcement_kinds:
  "is_reinforcement e \<Longrightarrow> \<not> is_doc_write e"
  "is_reinforcement e \<Longrightarrow> \<not> is_record_action e"
  "is_reinforcement e \<Longrightarrow> e \<noteq> BrainStep"
  by (cases e; simp)+

lemma ingest_kinds:
  "filter is_doc_write (ingest_calls symb d fq fk news) = ingest_calls symb d fq fk news"
  "filter is_record_action (ingest_calls symb d fq fk news) = []"
  "filter is_reinforcement (ingest_calls symb d fq fk news) = []"
  "GetFeedbackResponse \<notin> set (ingest_calls symb d fq fk news)"
  by (simp_all add: ingest_calls_def)

lemma ingest_world:
  "handling_news d news (handling_filings d fq fk w) =
     w\<lparr>calls := calls w @ ingest_calls (trading_symbol (self w)) d fq fk news\<rparr>"
  by (simp add: handling_news_def handling_filings_def ingest_calls_def emit_def Let_def)

lemma query_info_self:
  "query_info_for_reflection rm resp w = (r, w') \<Longrightarrow> self w' = self w"
  by (auto simp: query_info_for_reflection_def Let_def split: if_splits option.splits)

lemma query_info_calls:
  "query_info_for_reflection rm resp w = (r, w') \<Longrightarrow>
   \<exists>xs. calls w' = calls w @ xs \<and> list_all reflect_event xs"
  by (auto simp: query_info_for_reflection_def Let_def split: if_splits option.splits)

lemma reflection_on_record_self:
  "reflection_on_record d rm rc resp w = (r, w') \<Longrightarrow> self w' = self w"
  by (auto simp: reflection_on_record_def Let_def dest!: query_info_self
           split: if_splits option.splits prod.splits result.splits)

lemma reflection_on_record_calls:
  "reflection_on_record d rm rc resp w = (r, w') \<Longrightarrow>
   \<exists>xs. calls w' = calls w @ xs \<and> list_all reflect_event xs"
  by (auto simp: reflection_on_record_def Let_def dest!: query_info_calls
           split: if_splits option.splits prod.splits result.splits)

lemma reflection_on_record_result:
  "reflection_on_record d rm rc resp w = (Ok r, w') \<Longrightarrow> r = r_trading_reflection resp"
  by (auto simp: reflection_on_record_def Let_def
           split: if_splits option.splits prod.splits result.splits)


lemma reflect_self:
  assumes "reflect d rm rc resp w = (r, w')"
  shows "self w' = self w \<or>
         self w' = (self w)\<lparr>reflection_result_series_dict :=
               fmupd d (r_trading_reflection resp) (reflection_result_series_dict (self w))\<rparr>"
proof (cases "reflection_on_record d rm rc resp w")
  case (Pair r1 w1)
  have s: "self w1 = self w" using Pair by (rule reflection_on_record_self)
  show ?thesis
  proof (cases r1)
    case (Raise e)
    with assms Pair s show ?thesis by (simp add: reflect_def)
  next
    case (Ok x)
    with Pair have "x = r_trading_reflection resp" by (simp add: reflection_on_record_result)
    with assms Pair Ok s show ?thesis
      by (auto simp: reflect_def Let_def split: if_splits option.splits)
  qed
qed

lemma reflect_self_ok:
  assumes "reflect d rm rc resp w = (Ok u, w')"
  shows "self w' = (self w)\<lparr>reflection_result_series_dict :=
               fmupd d (r_trading_reflection resp) (reflection_result_series_dict (self w))\<rparr>"
proof (cases "reflection_on_record d rm rc resp w")
  case (Pair r1 w1)
  have s: "self w1 = self w" using Pair by (rule reflection_on_record_self)
  show ?thesis
  proof (cases r1)
    case (Raise e)
    with assms Pair s show ?thesis by (simp add: reflect_def)
  next
    case (Ok x)
    with Pair have "x = r_trading_reflection resp" by (simp add: reflection_on_record_result)
    with assms Pair Ok s show ?thesis
      by (auto simp: reflect_def Let_def split: if_splits option.splits)
  qed
qed

lemma reflect_calls:
  "reflect d rm rc resp w = (r, w') \<Longrightarrow>
   \<exists>xs. calls w' = calls w @ xs \<and> list_all reflect_event xs"
  by (auto simp: reflect_def Let_def dest!: reflection_on_record_calls
           split: if_splits option.splits prod.splits result.splits)

lemma sub_self:
  "update_access_counter_sub m k fb w = (r, w') \<Longrightarrow> self w' = self w"
  by (auto simp: update_access_counter_sub_def split: option.splits result.splits)

lemma sub_calls:
  "update_access_counter_sub m k fb w = (r, w') \<Longrightarrow>
   \<exists>xs. calls w' = calls w @ xs \<and> list_all is_reinforcement xs"
  by (auto simp: update_access_counter_sub_def split: option.splits result.splits)

lemmas tier_defs = update_short_memory_access_counter_def update_mid_memory_access_counter_def
  update_long_memory_access_counter_def update_reflection_memory_access_counter_def

lemma tiers_self:
  "update_short_memory_access_counter fb m w = (r, w') \<Longrightarrow> self w' = self w"
  "update_mid_memory_access_counter fb m w = (r, w') \<Longrightarrow> self w' = self w"
  "update_long_memory_access_counter fb m w = (r, w') \<Longrightarrow> self w' = self w"
  "update_reflection_memory_access_counter fb m w = (r, w') \<Longrightarrow> self w' = self w"
  by (auto simp: tier_defs dest: sub_self split: if_splits)

lemma tiers_calls:
  "update_short_memory_access_counter fb m w = (r, w') \<Longrightarrow>
     \<exists>xs. calls w' = calls w @ xs \<and> list_all is_reinforcement xs"
  "update_mid_memory_access_counter fb m w = (r, w') \<Longrightarrow>
     \<exists>xs. calls w' = calls w @ xs \<and> list_all is_reinforcement xs"
  "update_long_memory_access_counter fb m w = (r, w') \<Longrightarrow>
     \<exists>xs. calls w' = calls w @ xs \<and> list_all is_reinforcement xs"
  "update_reflection_memory_access_counter fb m w = (r, w') \<Longrightarrow>
     \<exists>xs. calls w' = calls w @ xs \<and> list_all is_reinforcement xs"
  by (auto simp: tier_defs dest: sub_calls split: if_splits)

lemma update_access_counter_self:
  "update_access_counter resp w = (r, w') \<Longrightarrow> self w' = self w"
  by (auto simp: update_access_counter_def Let_def dest!: tiers_self
           split: option.splits if_splits prod.splits result.splits)

lemma update_access_counter_calls:
  "update_access_counter resp w = (r, w') \<Longrightarrow>
   \<exists>xs. calls w' = calls w @ GetFeedbackResponse # xs \<and> list_all is_reinforcement xs"
  by (auto simp: update_access_counter_def Let_def dest!: tiers_calls
           split: option.splits if_splits prod.splits result.splits)


lemma step_shape:
  assumes rm: "rm = Train \<or> rm = Test"
    and st: "step (d, price, fk, fq, news, rc, False) rm resp w = (r, w')"
  obtains
    (front) e xs where "r = Raise e" "list_all reflect_event xs"
      "calls w' = calls w @ ingest_calls (trading_symbol (self w)) d fq fk news
                    @ UpdateMarketInfo price d # xs"
      "access_counter (self w') = access_counter (self w)"
      "fst (reflect d rm rc resp (emit (UpdateMarketInfo price d)
              (handling_news d news (handling_filings d fq fk w)))) = Raise e \<or>
       (if rm = Train then construct_train_actions rc
        else process_test_action (r_trading_reflection resp)) = Raise e"
  | (acted) a xs w5 where "list_all reflect_event xs"
      "calls w5 = calls w @ ingest_calls (trading_symbol (self w)) d fq fk news
                    @ UpdateMarketInfo price d # xs @ [RecordAction a, UpdatePortfolioSeries]"
      "self w5 = (self w)\<lparr>reflection_result_series_dict :=
                   fmupd d (r_trading_reflection resp) (reflection_result_series_dict (self w))\<rparr>"
      "(if rm = Train then construct_train_actions rc
        else process_test_action (r_trading_reflection resp)) = Ok a"
      "case update_access_counter resp w5 of
         (Raise e, w6) \<Rightarrow> r = Raise e \<and> w' = w6
       | (Ok u, w6) \<Rightarrow> r = Ok () \<and> w' = emit BrainStep w6"
proof -
  define w3 where "w3 = emit (UpdateMarketInfo price d) (handling_news d news (handling_filings d fq fk w))"
  have c3: "calls w3 = calls w @ ingest_calls (trading_symbol (self w)) d fq fk news @ [UpdateMarketInfo price d]"
    and s3: "self w3 = self w"
    by (simp_all add: w3_def ingest_world)
  obtain r4 w4 where r4: "reflect d rm rc resp w3 = (r4, w4)" by (cases "reflect d rm rc resp w3")
  from reflect_calls [OF r4] obtain xs where
    xs: "calls w4 = calls w3 @ xs" "list_all reflect_event xs" by blast
  have st': "(r, w') =
     (case r4 of Raise e \<Rightarrow> (Raise e, w4)
      | Ok u \<Rightarrow>
         (case (if rm = Train then construct_train_actions rc
                else (case fmlookup (reflection_result_series_dict (self w4)) d of
                        None \<Rightarrow> Raise KeyError | Some r \<Rightarrow> process_test_action r)) of
            Raise e \<Rightarrow> (Raise e, w4)
          | Ok cur_action \<Rightarrow>
              (case update_access_counter resp (portfolio_step cur_action w4) of
                 (Raise e, w6) \<Rightarrow> (Raise e, w6)
               | (Ok u, w6) \<Rightarrow> (Ok (), emit BrainStep w6))))"
    using st rm r4 by (auto simp: step_def Let_def w3_def split: result.splits)
  show ?thesis
  proof (cases r4)
    case (Raise e)
    have "access_counter (self w4) = access_counter (self w)"
      using reflect_self [OF r4] s3 by auto
    moreover have "fst (reflect d rm rc resp w3) = Raise e"
      using r4 Raise by simp
    ultimately show ?thesis using Raise st' xs c3 by (intro front [of e xs]) (auto simp: w3_def)
  next
    case (Ok u)
    have s4: "self w4 = (self w)\<lparr>reflection_result_series_dict :=
                   fmupd d (r_trading_reflection resp) (reflection_result_series_dict (self w))\<rparr>"
      using reflect_self_ok [of d rm rc resp w3 u w4] r4 Ok s3 by simp
    define act where "act = (if rm = Train then construct_train_actions rc
        else process_test_action (r_trading_reflection resp))"
    have act: "(if rm = Train then construct_train_actions rc
                else (case fmlookup (reflection_result_series_dict (self w4)) d of
                        None \<Rightarrow> Raise KeyError | Some r \<Rightarrow> process_test_action r)) = act"
      by (simp add: act_def s4)
    show ?thesis
    proof (cases act)
      case (Raise e)
      have "access_counter (self w4) = access_counter (self w)" by (simp add: s4)
      with Raise st' Ok act xs c3 show ?thesis by (intro front [of e xs]) (auto simp: act_def)
    next
      case (Ok a)
      note a = this
      show ?thesis
      proof (rule acted [of xs "portfolio_step a w4" a])
        show "list_all reflect_event xs" by (rule xs)
        show "calls (portfolio_step a w4) = calls w @ ingest_calls (trading_symbol (self w)) d fq fk news
                    @ UpdateMarketInfo price d # xs @ [RecordAction a, UpdatePortfolioSeries]"
          by (simp add: portfolio_step_def xs c3)
        show "self (portfolio_step a w4) = (self w)\<lparr>reflection_result_series_dict :=
                   fmupd d (r_trading_reflection resp) (reflection_result_series_dict (self w))\<rparr>"
          by (simp add: portfolio_step_def s4)
        show "(if rm = Train then construct_train_actions rc
               else process_test_action (r_trading_reflection resp)) = Ok a"
          using a by (simp add: act_def)
        show "case update_access_counter resp (portfolio_step a w4) of
                (Raise e, w6) \<Rightarrow> r = Raise e \<and> w' = w6
              | (Ok u, w6) \<Rightarrow> r = Ok () \<and> w' = emit BrainStep w6"
          using st' \<open>r4 = Ok u\<close> act a
          by (auto split: prod.splits result.splits)
      qed
    qed
  qed
qed

lemma step_calls:
  assumes rm: "rm = Train \<or> rm = Test"
    and st: "step (d, price, fk, fq, news, rc, False) rm resp w = (r, w')"
  obtains
    (front) e xs where "r = Raise e" "list_all reflect_event xs"
      "new_calls w w' = ingest_calls (trading_symbol (self w)) d fq fk news
                    @ UpdateMarketInfo price d # xs"
      "fst (reflect d rm rc resp (emit (UpdateMarketInfo price d)
              (handling_news d news (handling_filings d fq fk w)))) = Raise e \<or>
       (if rm = Train then construct_train_actions rc
        else process_test_action (r_trading_reflection resp)) = Raise e"
  | (acted) a xs ys tl where "list_all reflect_event xs" "list_all is_reinforcement ys"
      "new_calls w w' = ingest_calls (trading_symbol (self w)) d fq fk news
                    @ UpdateMarketInfo price d # xs
                    @ [RecordAction a, UpdatePortfolioSeries, GetFeedbackResponse] @ ys @ tl"
      "(if rm = Train then construct_train_actions rc
        else process_test_action (r_trading_reflection resp)) = Ok a"
      "(r = Ok () \<and> tl = [BrainStep]) \<or> ((\<exists>e. r = Raise e) \<and> tl = [])"
  using rm st
proof (cases rule: step_shape)
  case (front e xs)
  then show ?thesis by (intro that(1) [of e xs]) simp_all
next
  case (acted a xs w5)
  obtain r6 w6 where u: "update_access_counter resp w5 = (r6, w6)"
    by (cases "update_access_counter resp w5")
  from update_access_counter_calls [OF u] obtain ys where
    ys: "calls w6 = calls w5 @ GetFeedbackResponse # ys" "list_all is_reinforcement ys" by blast
  show ?thesis
  proof (cases r6)
    case (Ok u')
    with acted(5) u have "r = Ok ()" "w' = emit BrainStep w6" by simp_all
    then show ?thesis
      using acted(1,2,4) ys
      by (intro that(2) [of xs ys a "[BrainStep]"]) simp_all
  next
    case (Raise e)
    with acted(5) u have "r = Raise e" "w' = w6" by simp_all
    then show ?thesis
      using acted(1,2,4) ys
      by (intro that(2) [of xs ys a "[]"]) simp_all
  qed
qed

lemma reflect_train_ok: "fst (reflect d Train rc resp w) = Ok ()"
  by (auto simp: reflect_def reflection_on_record_def query_info_for_reflection_def Let_def
           split: option.splits prod.splits result.splits)

lemma reflect_test_ok:
  assumes "\<And>m. r_get_moment resp = Some m \<Longrightarrow> fmlookup m ''moment'' \<noteq> None"
    and "r_trading_reflection resp = fmempty \<or>
         fmlookup (r_trading_reflection resp) ''investment_decision'' \<noteq> None"
  shows "fst (reflect d Test rc resp w) = Ok ()"
  using assms
  by (auto simp: reflect_def reflection_on_record_def query_info_for_reflection_def Let_def
           split: option.splits prod.splits result.splits)

lemma reflect_events_no_feedback_query:
  "list_all reflect_event xs \<Longrightarrow> GetFeedbackResponse \<notin> set xs"
  by (induction xs) auto

lemma update_access_counter_no_signal:
  assumes "r_get_feedback_response resp = None \<or>
           (\<exists>fb. r_get_feedback_response resp = Some fb \<and> fb_feedback fb = 0)"
  shows "update_access_counter resp v = (Ok (), emit GetFeedbackResponse v)"
  using assms by (auto simp: update_access_counter_def Let_def)

lemma update_access_counter_missing_date:
  assumes "r_get_feedback_response resp = Some fb" "fb_feedback fb \<noteq> 0"
    and "fmlookup (reflection_result_series_dict (self v)) (fb_date fb) = None"
  shows "update_access_counter resp v = (Raise KeyError, emit GetFeedbackResponse v)"
  using assms by (simp add: update_access_counter_def Let_def)

lemma process_test_action_empty:
  "process_test_action fmempty = Ok \<lparr>direction = 0, quantity = None\<rparr>"
  by (simp add: process_test_action_def decision_is_def)

lemma process_test_action_label:
  assumes "fmlookup r ''investment_decision'' = Some v"
  shows "process_test_action r =
           Ok \<lparr>direction = (if v = PStr ''buy'' then 1 else if v = PStr ''sell'' then - 1 else 0),
               quantity = None\<rparr>"
proof -
  from assms have "r \<noteq> fmempty" by auto
  with assms show ?thesis
    by (simp add: process_test_action_def decision_is_def split: bool.splits)
qed

lemma process_test_action_missing:
  assumes "r \<noteq> fmempty" "fmlookup r ''investment_decision'' = None"
  shows "process_test_action r = Raise KeyError"
  using assms by (simp add: process_test_action_def decision_is_def)

lemma step_without_phases:
  "\<not> ((rm = Train \<or> rm = Test) \<and> \<not> dn) \<Longrightarrow>
   snd (step (d, price, fk, fq, news, rc, dn) rm resp w) = w"
  by (cases rm) (simp_all add: step_def)

subsection \<open>A non-empty result without a decision label\<close>

lemma reflect_test_missing_label:
  assumes "r_trading_reflection resp \<noteq> fmempty"
    and "fmlookup (r_trading_reflection resp) ''investment_decision'' = None"
  shows "fst (reflect d Test rc resp w) = Raise KeyError"
  using assms
  by (auto simp: reflect_def reflection_on_record_def query_info_for_reflection_def Let_def
           split: option.splits prod.splits result.splits)

lemma test_step_missing_label_fails:
  assumes "r_trading_reflection resp \<noteq> fmempty"
    and "fmlookup (r_trading_reflection resp) ''investment_decision'' = None"
  shows "fst (step (d, price, fk, fq, news, rc, False) Test resp w) = Raise KeyError \<and>
         filter is_record_action
           (new_calls w (snd (step (d, price, fk, fq, news, rc, False) Test resp w))) = []"
proof -
  obtain res w' where st: "step (d, price, fk, fq, news, rc, False) Test resp w = (res, w')"
    by (cases "step (d, price, fk, fq, news, rc, False) Test resp w")
  have tr: "Test = Train \<or> Test = Test" by simp
  have "res = Raise KeyError \<and> filter is_record_action (new_calls w w') = []"
    using tr st
  proof (cases rule: step_calls)
    case (front e xs)
    from front(4) have "e = KeyError"
      by (simp add: reflect_test_missing_label [OF assms] process_test_action_missing [OF assms])
    with front show ?thesis
      by (simp add: ingest_kinds filter_none [OF _ reflect_event_kinds(2)])
  next
    case (acted a xs ys tl)
    from acted(4) show ?thesis by (simp add: process_test_action_missing [OF assms])
  qed
  then show ?thesis by (simp add: st)
qed

subsection \<open>Evaluation on the example values\<close>

lemmas example_defs = example_world_def example_agent_def quiet_responses_def
  example_market_info_def reflected_world_def empty_tier_world_def feedback_responses_def
  memory_item_def

lemmas step_eval = step_def handling_filings_def handling_news_def emit_def reflect_def
  reflection_on_record_def query_info_for_reflection_def construct_train_actions_def
  portfolio_step_def update_access_counter_def process_test_action_def decision_is_def
  update_access_counter_sub_def tier_defs Let_def new_calls_def

lemmas reinforcement_eval = update_access_counter_def update_access_counter_sub_def tier_defs
  emit_def Let_def

lemmas checkpoint_eval = save_checkpoint_def load_checkpoint_def init_def os_mkdir_def
  shutil_rmtree_def dump_state_dict_def load_state_dict_def path_exists_def is_dir_def
  default_look_back_window_size_def Let_def example_externals_def empty_fs_def

subsection \<open>Deduplication of the recorded identifiers\<close>

lemma item_id_memory_index: "item_id i = Some x \<Longrightarrow> memory_index_of i = Ok x"
  by (cases i) auto

lemma remdups_drop_later: "x \<in> set zs \<Longrightarrow> remdups (ys @ x # zs) = remdups (ys @ zs)"
  by (induction ys) auto

lemma first_occurrences_skip:
  "x \<in> set acc \<Longrightarrow> rev (remdups (rev (acc @ x # ys))) = rev (remdups (rev (acc @ ys)))"
  by (simp add: remdups_drop_later)

lemma collect_ids_first_occurrences:
  "those (map item_id items) = Some ids \<Longrightarrow> distinct acc \<Longrightarrow>
   collect_ids items acc = Ok (rev (remdups (rev (acc @ ids))))"
proof (induction items arbitrary: acc ids)
  case Nil
  then show ?case by (simp add: distinct_remdups_id)
next
  case (Cons i items)
  from Cons.prems(1) obtain x ids' where
    x: "item_id i = Some x" and rest: "those (map item_id items) = Some ids'"
    and ids: "ids = x # ids'"
    by (auto split: option.splits)
  show ?case
  proof (cases "x \<in> set acc")
    case True
    with Cons.IH [OF rest Cons.prems(2)] x ids show ?thesis
      by (simp add: item_id_memory_index first_occurrences_skip del: rev_append)
  next
    case False
    then have "distinct (acc @ [x])" using Cons.prems(2) by simp
    from Cons.IH [OF rest this] False x ids show ?thesis
      by (simp add: item_id_memory_index)
  qed
qed

lemma tier_ids_deduplicated:
  "recorded_ids v = Some ids \<Longrightarrow> tier_ids v = Ok (deduplicated_ids v)"
  by (cases v) (simp_all add: deduplicated_ids_def collect_ids_first_occurrences)

lemma deduplicated_ids_distinct:
  "recorded_ids v = Some ids \<Longrightarrow>
   distinct (deduplicated_ids v) \<and> set (deduplicated_ids v) = set ids"
  by (simp add: deduplicated_ids_def)

lemma sub_deduplicated:
  assumes "fmlookup cur_memory k = Some v" "recorded_ids v \<noteq> None"
  shows "update_access_counter_sub cur_memory k fb w =
           (Ok (), w\<lparr>calls := calls w @
              tier_call (trading_symbol (self w)) (fb_feedback fb) cur_memory k\<rparr>)"
  using assms
  by (auto simp: update_access_counter_sub_def tier_call_def emit_def tier_ids_deduplicated)

lemma tier_steps:
  assumes "\<forall>k\<in>set tier_keys. \<forall>v. fmlookup cur_memory k = Some v \<longrightarrow> recorded_ids v \<noteq> None"
  shows "update_short_memory_access_counter fb cur_memory w =
           (Ok (), w\<lparr>calls := calls w @
              tier_call (trading_symbol (self w)) (fb_feedback fb) cur_memory ''short_memory_index''\<rparr>)"
    and "update_mid_memory_access_counter fb cur_memory w =
           (Ok (), w\<lparr>calls := calls w @
              tier_call (trading_symbol (self w)) (fb_feedback fb) cur_memory ''middle_memory_index''\<rparr>)"
    and "update_long_memory_access_counter fb cur_memory w =
           (Ok (), w\<lparr>calls := calls w @
              tier_call (trading_symbol (self w)) (fb_feedback fb) cur_memory ''long_memory_index''\<rparr>)"
    and "update_reflection_memory_access_counter fb cur_memory w =
           (Ok (), w\<lparr>calls := calls w @
              tier_call (trading_symbol (self w)) (fb_feedback fb) cur_memory ''reflection_memory_index''\<rparr>)"
proof -
  have absent: "k |\<notin>| fmdom cur_memory \<Longrightarrow> tier_call symb m cur_memory k = []" for k symb m
    by (simp add: tier_call_def fmdom_notD)
  have present: "k |\<in>| fmdom cur_memory \<Longrightarrow> k \<in> set tier_keys \<Longrightarrow>
     update_access_counter_sub cur_memory k fb w =
           (Ok (), w\<lparr>calls := calls w @
              tier_call (trading_symbol (self w)) (fb_feedback fb) cur_memory k\<rparr>)" for k
  proof -
    assume "k |\<in>| fmdom cur_memory" and k: "k \<in> set tier_keys"
    then obtain v where v: "fmlookup cur_memory k = Some v" by (auto dest: fmdomE)
    with assms k have "recorded_ids v \<noteq> None" by blast
    with v show ?thesis by (rule sub_deduplicated)
  qed
  show "update_short_memory_access_counter fb cur_memory w =
           (Ok (), w\<lparr>calls := calls w @
              tier_call (trading_symbol (self w)) (fb_feedback fb) cur_memory ''short_memory_index''\<rparr>)"
    by (simp add: update_short_memory_access_counter_def absent present tier_keys_def)
  show "update_mid_memory_access_counter fb cur_memory w =
           (Ok (), w\<lparr>calls := calls w @
              tier_call (trading_symbol (self w)) (fb_feedback fb) cur_memory ''middle_memory_index''\<rparr>)"
    by (simp add: update_mid_memory_access_counter_def absent present tier_keys_def)
  show "update_long_memory_access_counter fb cur_memory w =
           (Ok (), w\<lparr>calls := calls w @
              tier_call (trading_symbol (self w)) (fb_feedback fb) cur_memory ''long_memory_index''\<rparr>)"
    by (simp add: update_long_memory_access_counter_def absent present tier_keys_def)
  show "update_reflection_memory_access_counter fb cur_memory w =
           (Ok (), w\<lparr>calls := calls w @
              tier_call (trading_symbol (self w)) (fb_feedback fb) cur_memory ''reflection_memory_index''\<rparr>)"
    by (simp add: update_reflection_memory_access_counter_def absent present tier_keys_def)
qed


subsection \<open>The access counter and the saved state dictionary\<close>

lemma step_access_counter:
  "access_counter (self (snd (step market_info rm resp w))) = access_counter (self w)"
proof -
  obtain d price fk fq news rc dn where mi: "market_info = (d, price, fk, fq, news, rc, dn)"
    by (cases market_info)
  obtain res w' where st: "step (d, price, fk, fq, news, rc, dn) rm resp w = (res, w')"
    by (cases "step (d, price, fk, fq, news, rc, dn) rm resp w")
  have "access_counter (self w') = access_counter (self w)"
  proof (cases "(rm = Train \<or> rm = Test) \<and> \<not> dn")
    case False
    then have "w' = w" using st step_without_phases [of rm dn d price fk fq news rc resp w]
      by simp
    then show ?thesis by simp
  next
    case True
    then have rm: "rm = Train \<or> rm = Test"
      and st': "step (d, price, fk, fq, news, rc, False) rm resp w = (res, w')"
      using st by auto
    from rm st' show ?thesis
    proof (cases rule: step_shape)
      case (front e xs)
      then show ?thesis by simp
    next
      case (acted a xs w5)
      obtain r6 w6 where u: "update_access_counter resp w5 = (r6, w6)"
        by (cases "update_access_counter resp w5")
      from update_access_counter_self [OF u] have "self w6 = self w5" .
      moreover from acted(5) u have "self w' = self w6" by (cases r6) simp_all
      ultimately show ?thesis by (simp add: acted(3))
    qed
  qed
  then show ?thesis by (simp add: mi st)
qed

lemma dump_state_dict_ok:
  "dump_state_dict p sd f = (Ok (), f') \<Longrightarrow> fmlookup (tree f') p = Some (StateDictFile sd)"
  by (auto simp: dump_state_dict_def split: if_splits)

lemma save_checkpoint_state_dict:
  assumes brain_keeps: "\<And>g. fmlookup (tree (snd (brain_save_checkpoint ext (brain a)
                 (path0 @ [agent_name a, ''brain'']) force g)))
               (path0 @ [agent_name a, ''state_dict.pkl'']) =
             fmlookup (tree g) (path0 @ [agent_name a, ''state_dict.pkl''])"
    and saved: "save_checkpoint ext path0 force a f = (Ok (), f')"
  shows "\<exists>sd. fmlookup (tree f') (path0 @ [agent_name a, ''state_dict.pkl'']) =
                 Some (StateDictFile sd) \<and>
              sd_access_counter sd = access_counter a \<and>
              sd_reflection_result_series_dict sd = reflection_result_series_dict a"
proof -
  let ?sd = "\<lparr>sd_agent_name = agent_name a,
                sd_character_string = character_string a,
                sd_top_k = top_k a,
                sd_counter = counter a,
                sd_trading_symbol = trading_symbol a,
                sd_chat_end_point_name = chat_end_point_name a,
                sd_chat_end_point_config = chat_end_point_config a,
                sd_portfolio = portfolio a,
                sd_chat_end_point = chat_end_point a,
                sd_reflection_result_series_dict = reflection_result_series_dict a,
                sd_access_counter = access_counter a\<rparr>"
  from saved obtain f3 f4 where
    dump: "dump_state_dict (path0 @ [agent_name a, ''state_dict.pkl'']) ?sd f3 = (Ok (), f4)"
    and brain: "brain_save_checkpoint ext (brain a) (path0 @ [agent_name a, ''brain'']) force f4
                  = (Ok (), f')"
    by (auto simp: save_checkpoint_def Let_def split: prod.splits result.splits if_splits)
  have "fmlookup (tree f') (path0 @ [agent_name a, ''state_dict.pkl'']) =
        fmlookup (tree f4) (path0 @ [agent_name a, ''state_dict.pkl''])"
    using brain_keeps [of f4] brain by simp
  also have "\<dots> = Some (StateDictFile ?sd)" using dump by (rule dump_state_dict_ok)
  finally show ?thesis by simp
qed

lemma load_after_save:
  assumes brain_keeps: "\<And>g. fmlookup (tree (snd (brain_save_checkpoint ext (brain a)
                 (path0 @ [agent_name a, ''brain'']) force g)))
               (path0 @ [agent_name a, ''state_dict.pkl'']) =
             fmlookup (tree g) (path0 @ [agent_name a, ''state_dict.pkl''])"
    and saved: "save_checkpoint ext path0 force a f = (Ok (), f')"
    and loaded: "load_checkpoint ext (path0 @ [agent_name a]) f' = Ok a'"
  shows "reflection_result_series_dict a' = reflection_result_series_dict a \<and>
         access_counter a' = access_counter a \<and>
         counter a' = counter a \<and> top_k a' = top_k a \<and>
         agent_name a' = agent_name a \<and> trading_symbol a' = trading_symbol a \<and>
         character_string a' = character_string a \<and>
         chat_end_point_name a' = chat_end_point_name a \<and>
         chat_end_point_config a' = chat_end_point_config a \<and>
         portfolio a' = portfolio a \<and> chat_end_point a' = chat_end_point a \<and>
         look_back_window_size a' = 7"
proof -
  let ?sd = "\<lparr>sd_agent_name = agent_name a,
                sd_character_string = character_string a,
                sd_top_k = top_k a,
                sd_counter = counter a,
                sd_trading_symbol = trading_symbol a,
                sd_chat_end_point_name = chat_end_point_name a,
                sd_chat_end_point_config = chat_end_point_config a,
                sd_portfolio = portfolio a,
                sd_chat_end_point = chat_end_point a,
                sd_reflection_result_series_dict = reflection_result_series_dict a,
                sd_access_counter = access_counter a\<rparr>"
  from saved obtain f3 f4 where
    dump: "dump_state_dict (path0 @ [agent_name a, ''state_dict.pkl'']) ?sd f3 = (Ok (), f4)"
    and brain: "brain_save_checkpoint ext (brain a) (path0 @ [agent_name a, ''brain'']) force f4
                  = (Ok (), f')"
    by (auto simp: save_checkpoint_def Let_def split: prod.splits result.splits if_splits)
  have "fmlookup (tree f') (path0 @ [agent_name a, ''state_dict.pkl'']) =
        fmlookup (tree f4) (path0 @ [agent_name a, ''state_dict.pkl''])"
    using brain_keeps [of f4] brain by simp
  also have "\<dots> = Some (StateDictFile ?sd)" using dump by (rule dump_state_dict_ok)
  finally have "load_state_dict (path0 @ [agent_name a, ''state_dict.pkl'']) f' = Ok ?sd"
    by (simp add: load_state_dict_def)
  with loaded show ?thesis
    by (auto simp: load_checkpoint_def init_def Let_def default_look_back_window_size_def
             split: result.splits)
qed

subsection \<open>Run mode and termination flag\<close>

text \<open>
  C10. A call of \<open>step\<close> with a run mode other than Train and Test raises ValueError and
  leaves the agent and the call list as they were, whatever the market information is:
  the done flag is not looked at, so the call fails also when the flag is set.
\<close>

theorem step_invalid_run_mode:
  "step market_info (OtherMode s) resp w = (Raise ValueError, w)"
  by (simp add: step_def)

text \<open>
  C8. With a valid run mode and the done flag set, \<open>step\<close> returns normally and the world
  is unchanged: no collaborator is called (no memory write, no market update, no action,
  no reinforcement, no maintenance) and no attribute of the agent changes, so that the
  step can be repeated with the same effect.
\<close>

theorem step_done_is_noop:
  assumes "rm = Train \<or> rm = Test"
  shows "step (d, price, fk, fq, news, rc, True) rm resp w = (Ok (), w)"
  using assms by (auto simp: step_def)

theorem step_done_is_noop_witness:
  "(Train = Train \<or> Train = Test) \<and>
   step (example_market_info True) Train quiet_responses example_world = (Ok (), example_world)"
  using step_done_is_noop [of Train "(2024, 1, 2)" 250 "PDict fmempty" "PDict fmempty"
      "PList [PStr ''rate hike'']" "Some (Finite (1 / 2))" quiet_responses example_world]
  by (simp add: example_market_info_def)


subsection \<open>Ingestion\<close>

text \<open>
  C9, as amended. In a step that is not done (valid run mode), the writes of document
  payloads are exactly these, whatever happens later in the step: a quarterly-like payload
  that is not the empty dictionary \<^verbatim>\<open>{}\<close> goes to the Mid tier and nowhere else, an
  annual-like payload that is not \<^verbatim>\<open>{}\<close> to the Long tier, a news payload that is not
  \<^verbatim>\<open>{}\<close> to the Short tier, each once; a payload equal to \<^verbatim>\<open>{}\<close> is written to no
  tier. The empty dictionary is the only payload that is skipped: an empty list, an empty
  string or \<^verbatim>\<open>None\<close> is written like any other payload.
\<close>

theorem ingestion_routes_payloads:
  assumes "rm = Train \<or> rm = Test"
  shows "filter is_doc_write
           (new_calls w (snd (step (d, price, fk, fq, news, rc, False) rm resp w))) =
         (if fq \<noteq> PDict fmempty then [AddMemoryMid (trading_symbol (self w)) d fq] else []) @
         (if fk \<noteq> PDict fmempty then [AddMemoryLong (trading_symbol (self w)) d fk] else []) @
         (if news \<noteq> PDict fmempty then [AddMemoryShort (trading_symbol (self w)) d news] else [])"
proof -
  obtain r w' where st: "step (d, price, fk, fq, news, rc, False) rm resp w = (r, w')"
    by (cases "step (d, price, fk, fq, news, rc, False) rm resp w")
  have "filter is_doc_write (new_calls w w') = ingest_calls (trading_symbol (self w)) d fq fk news"
    using assms st
  proof (cases rule: step_calls)
    case (front e xs)
    then show ?thesis
      by (simp add: ingest_kinds filter_none [OF _ reflect_event_kinds(1)])
  next
    case (acted a xs ys tl)
    then show ?thesis
      by (auto simp: ingest_kinds filter_none [OF _ reflect_event_kinds(1)]
            filter_none [OF _ reinforcement_kinds(1)])
  qed
  then show ?thesis by (simp add: st ingest_calls_def)
qed

theorem ingestion_routes_payloads_witness:
  "(Train = Train \<or> Train = Test) \<and>
   filter is_doc_write
     (new_calls example_world
        (snd (step (example_market_info False) Train quiet_responses example_world))) =
   [AddMemoryShort ''TSLA'' (2024, 1, 2) (PList [PStr ''rate hike''])]"
  using ingestion_routes_payloads [of Train example_world "(2024, 1, 2)" 250 "PDict fmempty"
      "PDict fmempty" "PList [PStr ''rate hike'']" "Some (Finite (1 / 2))" quiet_responses]
  by (simp add: example_market_info_def example_world_def example_agent_def)

text \<open>
  A step whose news payload is the empty list: the list is not \<^verbatim>\<open>{}\<close>, and it is
  written to the Short tier.
\<close>

theorem empty_news_list_written_counterexample:
  "filter is_doc_write
     (new_calls example_world
        (snd (step ((2024, 1, 2), 250, PDict fmempty, PDict fmempty, PList [],
                    Some (Finite (1 / 2)), False) Train quiet_responses example_world))) =
   [AddMemoryShort ''TSLA'' (2024, 1, 2) (PList [])]"
  by (simp add: step_eval example_defs)

subsection \<open>Action derivation\<close>

lemma train_step_records:
  "filter is_record_action
     (new_calls w (snd (step (d, price, fk, fq, news, Some r, False) Train resp w))) =
   [RecordAction \<lparr>direction = (if float_gt_zero r then 1 else - 1), quantity = Some 1\<rparr>]"
proof -
  obtain res w' where st: "step (d, price, fk, fq, news, Some r, False) Train resp w = (res, w')"
    by (cases "step (d, price, fk, fq, news, Some r, False) Train resp w")
  have tr: "Train = Train \<or> Train = Test" by simp
  have "filter is_record_action (new_calls w w') =
     [RecordAction \<lparr>direction = (if float_gt_zero r then 1 else - 1), quantity = Some 1\<rparr>]"
    using tr st
  proof (cases rule: step_calls)
    case (front e xs)
    from front(4) show ?thesis
      by (simp add: reflect_train_ok construct_train_actions_def)
  next
    case (acted a xs ys tl)
    then show ?thesis
      by (auto simp: ingest_kinds filter_none [OF _ reflect_event_kinds(2)]
            filter_none [OF _ reinforcement_kinds(2)] construct_train_actions_def)
  qed
  then show ?thesis by (simp add: st)
qed

lemma float_le_zero_not_gt: "float_le_zero r \<Longrightarrow> \<not> float_gt_zero r"
  by (cases r) auto

text \<open>
  C4. In a Train-mode step with realized outcome \<open>r\<close>, exactly one action is recorded on
  the portfolio: its direction is 1 when \<open>r > 0\<close> and -1 when \<open>r \<le> 0\<close>, its quantity is 1.
  The statement holds for all collaborator answers \<open>resp\<close>, the reasoning result among
  them, and the action does not mention them: it is the same for every reasoning result,
  the empty one included.
\<close>

theorem train_action_from_outcome:
  "(float_gt_zero r \<longrightarrow>
      filter is_record_action
        (new_calls w (snd (step (d, price, fk, fq, news, Some r, False) Train resp w))) =
      [RecordAction \<lparr>direction = 1, quantity = Some 1\<rparr>]) \<and>
   (float_le_zero r \<longrightarrow>
      filter is_record_action
        (new_calls w (snd (step (d, price, fk, fq, news, Some r, False) Train resp w))) =
      [RecordAction \<lparr>direction = - 1, quantity = Some 1\<rparr>])"
  by (simp add: train_step_records float_le_zero_not_gt)

theorem train_action_from_outcome_witness:
  "float_gt_zero (Finite (1 / 2)) \<and> float_le_zero (Finite (- 3)) \<and>
   filter is_record_action
     (new_calls example_world
        (snd (step (example_market_info False) Train quiet_responses example_world))) =
   [RecordAction \<lparr>direction = 1, quantity = Some 1\<rparr>] \<and>
   filter is_record_action
     (new_calls example_world
        (snd (step ((2024, 1, 2), 250, PDict fmempty, PDict fmempty, PDict fmempty,
                    Some (Finite (- 3)), False) Train quiet_responses example_world))) =
   [RecordAction \<lparr>direction = - 1, quantity = Some 1\<rparr>]"
  using train_action_from_outcome [of "Finite (1 / 2)" example_world "(2024, 1, 2)" 250
      "PDict fmempty" "PDict fmempty" "PList [PStr ''rate hike'']" quiet_responses]
    train_action_from_outcome [of "Finite (- 3)" example_world "(2024, 1, 2)" 250
      "PDict fmempty" "PDict fmempty" "PDict fmempty" quiet_responses]
  by (simp add: example_market_info_def)

text \<open>
  C3, as amended. In a Test-mode step whose reasoning result is empty or carries a
  decision label (the momentum answer being \<^verbatim>\<open>None\<close> or a dictionary with the key
  \<^verbatim>\<open>moment\<close>), exactly one action is recorded on the portfolio, with no quantity: its
  direction is 1 for the label buy, -1 for sell, and 0 for hold, for any other label and
  for the empty result. The default does not reach a non-empty result without a decision
  label.
\<close>

theorem test_action_from_decision:
  assumes moment: "\<forall>m. r_get_moment resp = Some m \<longrightarrow> fmlookup m ''moment'' \<noteq> None"
    and dec: "r_trading_reflection resp = fmempty \<or>
              fmlookup (r_trading_reflection resp) ''investment_decision'' = Some label"
  shows "filter is_record_action
           (new_calls w (snd (step (d, price, fk, fq, news, rc, False) Test resp w))) =
         [RecordAction
            \<lparr>direction = (if r_trading_reflection resp = fmempty then 0
                          else if label = PStr ''buy'' then 1
                          else if label = PStr ''sell'' then - 1
                          else 0),
             quantity = None\<rparr>]"
proof -
  obtain res w' where st: "step (d, price, fk, fq, news, rc, False) Test resp w = (res, w')"
    by (cases "step (d, price, fk, fq, news, rc, False) Test resp w")
  have tr: "Test = Train \<or> Test = Test" by simp
  let ?a = "\<lparr>direction = (if r_trading_reflection resp = fmempty then 0
                          else if label = PStr ''buy'' then 1
                          else if label = PStr ''sell'' then - 1
                          else 0),
             quantity = None\<rparr>"
  have act: "process_test_action (r_trading_reflection resp) = Ok ?a"
    using dec by (auto simp: process_test_action_empty process_test_action_label)
  have rf: "fst (reflect d Test rc resp v) = Ok ()" for v :: "('a, 'b, 'c, 'd) world"
    using moment dec by (intro reflect_test_ok) auto
  have "filter is_record_action (new_calls w w') = [RecordAction ?a]"
    using tr st
  proof (cases rule: step_calls)
    case (front e xs)
    from front(4) show ?thesis by (simp add: rf act)
  next
    case (acted a xs ys tl)
    from acted(4) act have "a = ?a" by simp
    with acted show ?thesis
      by (auto simp: ingest_kinds filter_none [OF _ reflect_event_kinds(2)]
            filter_none [OF _ reinforcement_kinds(2)])
  qed
  then show ?thesis by (simp add: st)
qed


theorem test_action_from_decision_witness:
  "r_get_moment (decided_responses ''buy'') = None \<and>
   fmlookup (r_trading_reflection (decided_responses ''buy'')) ''investment_decision'' =
     Some (PStr ''buy'') \<and>
   filter is_record_action
     (new_calls example_world
        (snd (step (example_market_info False) Test (decided_responses ''buy'') example_world))) =
     [RecordAction \<lparr>direction = 1, quantity = None\<rparr>] \<and>
   filter is_record_action
     (new_calls example_world
        (snd (step (example_market_info False) Test (decided_responses ''sell'') example_world))) =
     [RecordAction \<lparr>direction = - 1, quantity = None\<rparr>] \<and>
   filter is_record_action
     (new_calls example_world
        (snd (step (example_market_info False) Test (decided_responses ''wait'') example_world))) =
     [RecordAction \<lparr>direction = 0, quantity = None\<rparr>] \<and>
   r_trading_reflection quiet_responses = fmempty \<and>
   filter is_record_action
     (new_calls example_world
        (snd (step (example_market_info False) Test quiet_responses example_world))) =
     [RecordAction \<lparr>direction = 0, quantity = None\<rparr>]"
  using
    test_action_from_decision [of "decided_responses ''buy''" "PStr ''buy''" example_world
      "(2024, 1, 2)" 250 "PDict fmempty" "PDict fmempty" "PList [PStr ''rate hike'']"
      "Some (Finite (1 / 2))"]
    test_action_from_decision [of "decided_responses ''sell''" "PStr ''sell''" example_world
      "(2024, 1, 2)" 250 "PDict fmempty" "PDict fmempty" "PList [PStr ''rate hike'']"
      "Some (Finite (1 / 2))"]
    test_action_from_decision [of "decided_responses ''wait''" "PStr ''wait''" example_world
      "(2024, 1, 2)" 250 "PDict fmempty" "PDict fmempty" "PList [PStr ''rate hike'']"
      "Some (Finite (1 / 2))"]
    test_action_from_decision [of quiet_responses "PNone" example_world
      "(2024, 1, 2)" 250 "PDict fmempty" "PDict fmempty" "PList [PStr ''rate hike'']"
      "Some (Finite (1 / 2))"]
  by (simp add: decided_responses_def quiet_responses_def example_market_info_def)

text \<open>
  A non-empty reasoning result without a decision label, in Test mode: the lookup of the
  label raises KeyError, the step fails and no action is recorded.
\<close>

theorem missing_decision_label_counterexample:
  "r_trading_reflection undecided_responses \<noteq> fmempty \<and>
   fmlookup (r_trading_reflection undecided_responses) ''investment_decision'' = None \<and>
   process_test_action (r_trading_reflection undecided_responses) = Raise KeyError \<and>
   fst (step (example_market_info False) Test undecided_responses example_world) = Raise KeyError \<and>
   filter is_record_action
     (calls (snd (step (example_market_info False) Test undecided_responses example_world))) = []"
  by (simp add: step_eval example_defs undecided_responses_def)

subsection \<open>Reinforcement\<close>

text \<open>
  C7. When the portfolio reports no feedback, or a feedback whose magnitude is zero, the
  step issues no reinforcement call; and a step that got as far as asking the portfolio
  returns normally, its last call being the maintenance call of the memory.
\<close>

theorem no_signal_no_reinforcement:
  assumes st: "step market_info rm resp w = (res, w')"
    and nosig: "r_get_feedback_response resp = None \<or>
           (\<exists>fb. r_get_feedback_response resp = Some fb \<and> fb_feedback fb = 0)"
  shows "filter is_reinforcement (new_calls w w') = [] \<and>
         (GetFeedbackResponse \<in> set (new_calls w w') \<longrightarrow>
            res = Ok () \<and> last (calls w') = BrainStep)"
proof -
  obtain d price fk fq news rc dn where mi: "market_info = (d, price, fk, fq, news, rc, dn)"
    by (cases market_info)
  show ?thesis
  proof (cases "(rm = Train \<or> rm = Test) \<and> \<not> dn")
    case False
    then have "w' = w" using st mi step_without_phases [of rm dn d price fk fq news rc resp w]
      by simp
    then show ?thesis by simp
  next
    case True
    then have rm: "rm = Train \<or> rm = Test"
      and st': "step (d, price, fk, fq, news, rc, False) rm resp w = (res, w')"
      using st mi by auto
    from rm st' show ?thesis
    proof (cases rule: step_shape)
      case (front e xs)
      then show ?thesis
        by (auto simp: ingest_kinds filter_none [OF _ reflect_event_kinds(3)]
              dest: reflect_events_no_feedback_query)
    next
      case (acted a xs w5)
      from acted(5) have "res = Ok ()" "w' = emit BrainStep (emit GetFeedbackResponse w5)"
        by (simp_all add: update_access_counter_no_signal [OF nosig])
      with acted(1,2) show ?thesis
        by (auto simp: ingest_kinds filter_none [OF _ reflect_event_kinds(3)])
    qed
  qed
qed


theorem no_signal_no_reinforcement_witness:
  "r_get_feedback_response quiet_responses = None \<and>
   GetFeedbackResponse \<in> set (new_calls example_world
      (snd (step (example_market_info False) Train quiet_responses example_world))) \<and>
   fst (step (example_market_info False) Train quiet_responses example_world) = Ok () \<and>
   filter is_reinforcement (new_calls example_world
      (snd (step (example_market_info False) Train quiet_responses example_world))) = [] \<and>
   fb_feedback \<lparr>fb_feedback = 0, fb_date = (2024, 1, 2)\<rparr> = 0 \<and>
   fst (step ((2024, 1, 9), 260, PDict fmempty, PDict fmempty, PDict fmempty,
              Some (Finite 2), False) Train (feedback_responses 0 (2024, 1, 2)) reflected_world)
     = Ok () \<and>
   filter is_reinforcement (new_calls reflected_world
      (snd (step ((2024, 1, 9), 260, PDict fmempty, PDict fmempty, PDict fmempty,
              Some (Finite 2), False) Train (feedback_responses 0 (2024, 1, 2)) reflected_world)))
     = []"
proof -
  let ?s1 = "step (example_market_info False) Train quiet_responses example_world"
  let ?s2 = "step ((2024, 1, 9), 260, PDict fmempty, PDict fmempty, PDict fmempty,
              Some (Finite 2), False) Train (feedback_responses 0 (2024, 1, 2)) reflected_world"
  have a1: "GetFeedbackResponse \<in> set (new_calls example_world (snd ?s1))"
    by (simp add: step_eval example_defs)
  have a2: "GetFeedbackResponse \<in> set (new_calls reflected_world (snd ?s2))"
    by (simp add: step_eval example_defs)
  have n1: "r_get_feedback_response quiet_responses = None"
    by (simp add: quiet_responses_def)
  have n2: "r_get_feedback_response (feedback_responses 0 (2024, 1, 2)) =
              Some \<lparr>fb_feedback = 0, fb_date = (2024, 1, 2)\<rparr>"
    by (simp add: feedback_responses_def)
  from no_signal_no_reinforcement [of "example_market_info False" Train quiet_responses
      example_world "fst ?s1" "snd ?s1"] a1 n1
  have "fst ?s1 = Ok () \<and> filter is_reinforcement (new_calls example_world (snd ?s1)) = []"
    by simp
  moreover
  from no_signal_no_reinforcement [of "((2024, 1, 9), 260, PDict fmempty, PDict fmempty,
      PDict fmempty, Some (Finite 2), False)" Train "feedback_responses 0 (2024, 1, 2)"
      reflected_world "fst ?s2" "snd ?s2"] a2 n2
  have "fst ?s2 = Ok () \<and> filter is_reinforcement (new_calls reflected_world (snd ?s2)) = []"
    by simp
  ultimately show ?thesis using a1 n1 by simp
qed

text \<open>
  C2. When a step asks the portfolio for feedback and receives one with a nonzero
  magnitude for a date that has no entry in \<open>reflection_result_series_dict\<close> (the date is
  not the one the step has just stored, and the dictionary had no entry for it), the step
  raises KeyError, issues no reinforcement call to any tier, and does not reach the
  maintenance call.
\<close>

theorem missing_reflection_is_hard_failure:
  assumes st: "step (d, price, fk, fq, news, rc, dn) rm resp w = (res, w')"
    and asked: "GetFeedbackResponse \<in> set (new_calls w w')"
    and fb: "r_get_feedback_response resp = Some fb" "fb_feedback fb \<noteq> 0"
    and missing: "fb_date fb \<noteq> d"
       "fmlookup (reflection_result_series_dict (self w)) (fb_date fb) = None"
  shows "res = Raise KeyError \<and> filter is_reinforcement (new_calls w w') = [] \<and>
         BrainStep \<notin> set (new_calls w w')"
proof (cases "(rm = Train \<or> rm = Test) \<and> \<not> dn")
  case False
  then have "w' = w" using st step_without_phases [of rm dn d price fk fq news rc resp w]
    by simp
  with asked show ?thesis by simp
next
  case True
  then have rm: "rm = Train \<or> rm = Test"
    and st': "step (d, price, fk, fq, news, rc, False) rm resp w = (res, w')"
    using st by auto
  from rm st' show ?thesis
  proof (cases rule: step_shape)
    case (front e xs)
    with asked show ?thesis
      by (auto simp: ingest_kinds dest: reflect_events_no_feedback_query)
  next
    case (acted a xs w5)
    have "fmlookup (reflection_result_series_dict (self w5)) (fb_date fb) = None"
      using missing by (simp add: acted(3))
    from update_access_counter_missing_date [OF fb this] acted(5)
    have "res = Raise KeyError" "w' = emit GetFeedbackResponse w5" by simp_all
    with acted(1,2) show ?thesis
      by (auto simp: ingest_kinds filter_none [OF _ reflect_event_kinds(3)]
            ingest_calls_def dest: reflect_event_kinds(5) simp: list_all_iff)
  qed
qed

theorem missing_reflection_is_hard_failure_witness:
  "GetFeedbackResponse \<in> set (new_calls example_world
      (snd (step (example_market_info False) Train (feedback_responses (- 1) (2023, 12, 20))
              example_world))) \<and>
   r_get_feedback_response (feedback_responses (- 1) (2023, 12, 20)) =
     Some \<lparr>fb_feedback = - 1, fb_date = (2023, 12, 20)\<rparr> \<and>
   fmlookup (reflection_result_series_dict (self example_world)) (2023, 12, 20) = None \<and>
   fst (step (example_market_info False) Train (feedback_responses (- 1) (2023, 12, 20))
          example_world) = Raise KeyError \<and>
   filter is_reinforcement (new_calls example_world
      (snd (step (example_market_info False) Train (feedback_responses (- 1) (2023, 12, 20))
              example_world))) = [] \<and>
   BrainStep \<notin> set (new_calls example_world
      (snd (step (example_market_info False) Train (feedback_responses (- 1) (2023, 12, 20))
              example_world)))"
proof -
  let ?s = "step (example_market_info False) Train (feedback_responses (- 1) (2023, 12, 20))
              example_world"
  have asked: "GetFeedbackResponse \<in> set (new_calls example_world (snd ?s))"
    by (simp add: step_eval example_defs)
  have fb: "r_get_feedback_response (feedback_responses (- 1) (2023, 12, 20)) =
     Some \<lparr>fb_feedback = - 1, fb_date = (2023, 12, 20)\<rparr>"
    by (simp add: feedback_responses_def)
  have none: "fmlookup (reflection_result_series_dict (self example_world)) (2023, 12, 20) = None"
    by (simp add: example_defs)
  have st: "step ((2024, 1, 2), 250, PDict fmempty, PDict fmempty, PList [PStr ''rate hike''],
                  Some (Finite (1 / 2)), False) Train (feedback_responses (- 1) (2023, 12, 20))
              example_world = (fst ?s, snd ?s)"
    by (simp add: example_market_info_def)
  from missing_reflection_is_hard_failure [OF st asked fb] none
  show ?thesis using asked fb by simp
qed

text \<open>
  C1, as amended. When the portfolio reports a feedback with nonzero magnitude for a date
  whose stored record has, under each tier key it contains, a list of items carrying a
  \<^verbatim>\<open>memory_index\<close>, the reinforcement phase returns normally and its calls are: the
  feedback query, then, for the Short, Mid, Long and Reflection key in this order, one
  call per key that the record contains, carrying the identifiers recorded under the key,
  each once, and the magnitude of the feedback. A tier whose key is absent from the record
  is skipped; a tier whose key is present is called, also when its list is empty.
\<close>

theorem reinforcement_per_tier:
  assumes fb: "r_get_feedback_response resp = Some fb" "fb_feedback fb \<noteq> 0"
    and rec: "fmlookup (reflection_result_series_dict (self w)) (fb_date fb) = Some cur_memory"
    and wf: "\<forall>k\<in>set tier_keys. \<forall>v. fmlookup cur_memory k = Some v \<longrightarrow> recorded_ids v \<noteq> None"
  shows "update_access_counter resp w =
           (Ok (), w\<lparr>calls := calls w @ GetFeedbackResponse #
              concat (map (tier_call (trading_symbol (self w)) (fb_feedback fb) cur_memory)
                        tier_keys)\<rparr>) \<and>
         (\<forall>k\<in>set tier_keys. \<forall>v ids. fmlookup cur_memory k = Some v \<longrightarrow>
            recorded_ids v = Some ids \<longrightarrow>
            distinct (deduplicated_ids v) \<and> set (deduplicated_ids v) = set ids)"
proof
  show "update_access_counter resp w =
           (Ok (), w\<lparr>calls := calls w @ GetFeedbackResponse #
              concat (map (tier_call (trading_symbol (self w)) (fb_feedback fb) cur_memory)
                        tier_keys)\<rparr>)"
    using fb rec
    by (simp add: update_access_counter_def Let_def tier_steps [OF wf] tier_keys_def emit_def)
  show "\<forall>k\<in>set tier_keys. \<forall>v ids. fmlookup cur_memory k = Some v \<longrightarrow>
            recorded_ids v = Some ids \<longrightarrow>
            distinct (deduplicated_ids v) \<and> set (deduplicated_ids v) = set ids"
    using deduplicated_ids_distinct by blast
qed

theorem reinforcement_per_tier_witness:
  "r_get_feedback_response (feedback_responses (- 1) (2024, 1, 2)) =
     Some \<lparr>fb_feedback = - 1, fb_date = (2024, 1, 2)\<rparr> \<and>
   fb_feedback \<lparr>fb_feedback = - 1, fb_date = (2024, 1, 2)\<rparr> \<noteq> 0 \<and>
   update_access_counter (feedback_responses (- 1) (2024, 1, 2)) reflected_world =
     (Ok (), reflected_world\<lparr>calls :=
        [GetFeedbackResponse,
         UpdateAccessCountWithFeedBack ''TSLA'' [PStr ''s1'', PStr ''s2''] (- 1)]\<rparr>)"
  using reinforcement_per_tier [of "feedback_responses (- 1) (2024, 1, 2)"
      "\<lparr>fb_feedback = - 1, fb_date = (2024, 1, 2)\<rparr>" reflected_world
      "fmupd ''short_memory_index''
             (PList [memory_item ''s1'', memory_item ''s2'', memory_item ''s1''])
             (fmupd ''summary_reason'' (PStr ''rates are rising'') fmempty)"]
  by (simp add: example_defs tier_keys_def tier_call_def deduplicated_ids_def)

text \<open>
  A stored record whose Short tier entry is the empty list: the tier has no recorded
  identifier, and it is called with the empty identifier list.
\<close>

theorem empty_tier_called_counterexample:
  "fmlookup (reflection_result_series_dict (self empty_tier_world)) (2024, 1, 2) =
     Some (fmupd ''short_memory_index'' (PList []) fmempty) \<and>
   recorded_ids (PList []) = Some [] \<and>
   update_access_counter (feedback_responses 1 (2024, 1, 2)) empty_tier_world =
     (Ok (), empty_tier_world\<lparr>calls :=
        [GetFeedbackResponse, UpdateAccessCountWithFeedBack ''TSLA'' [] 1]\<rparr>)"
  by (simp add: example_defs reinforcement_eval)

subsection \<open>The access counter and checkpoints\<close>

text \<open>
  C6, as amended. The agent never writes its \<open>access_counter\<close>: a step, and the
  reinforcement phase in it, leave the mapping as it was, whatever calls they issue (the
  counts are kept by the memory alone). The mapping is part of every saved checkpoint:
  when \<open>save_checkpoint\<close> returns normally (the brain's own routine leaving the pickled
  file alone), the state dictionary in the checkpoint holds the agent's \<open>access_counter\<close>.
\<close>

theorem access_counter_kept_and_saved:
  "access_counter (self (snd (step market_info rm resp w))) = access_counter (self w) \<and>
   access_counter (self (snd (update_access_counter resp w))) = access_counter (self w) \<and>
   ((\<forall>g. fmlookup (tree (snd (brain_save_checkpoint ext (brain a)
                 (path0 @ [agent_name a, ''brain'']) force g)))
               (path0 @ [agent_name a, ''state_dict.pkl'']) =
             fmlookup (tree g) (path0 @ [agent_name a, ''state_dict.pkl''])) \<longrightarrow>
    save_checkpoint ext path0 force a f = (Ok (), f') \<longrightarrow>
    (\<exists>sd. fmlookup (tree f') (path0 @ [agent_name a, ''state_dict.pkl'']) =
             Some (StateDictFile sd) \<and>
          sd_access_counter sd = access_counter a))"
proof (intro conjI impI)
  show "access_counter (self (snd (step market_info rm resp w))) = access_counter (self w)"
    by (rule step_access_counter)
  show "access_counter (self (snd (update_access_counter resp w))) = access_counter (self w)"
    using update_access_counter_self [of resp w] by (cases "update_access_counter resp w") simp
next
  assume "\<forall>g. fmlookup (tree (snd (brain_save_checkpoint ext (brain a)
                 (path0 @ [agent_name a, ''brain'']) force g)))
               (path0 @ [agent_name a, ''state_dict.pkl'']) =
             fmlookup (tree g) (path0 @ [agent_name a, ''state_dict.pkl''])"
    and "save_checkpoint ext path0 force a f = (Ok (), f')"
  then show "\<exists>sd. fmlookup (tree f') (path0 @ [agent_name a, ''state_dict.pkl'']) =
             Some (StateDictFile sd) \<and> sd_access_counter sd = access_counter a"
    using save_checkpoint_state_dict [of ext a path0 force f f'] by auto
qed

theorem access_counter_kept_and_saved_witness:
  "save_checkpoint example_externals [] False example_agent empty_fs =
     (Ok (), snd (save_checkpoint example_externals [] False example_agent empty_fs)) \<and>
   (\<exists>sd. fmlookup (tree (snd (save_checkpoint example_externals [] False example_agent empty_fs)))
            [''agent_1'', ''state_dict.pkl''] = Some (StateDictFile sd) \<and>
         sd_access_counter sd = access_counter example_agent)"
proof -
  have ok: "save_checkpoint example_externals [] False example_agent empty_fs =
     (Ok (), snd (save_checkpoint example_externals [] False example_agent empty_fs))"
    by (simp add: checkpoint_eval example_agent_def)
  have keeps: "\<forall>g. fmlookup (tree (snd (brain_save_checkpoint example_externals (brain example_agent)
                 ([] @ [agent_name example_agent, ''brain'']) False g)))
               ([] @ [agent_name example_agent, ''state_dict.pkl'']) =
             fmlookup (tree g) ([] @ [agent_name example_agent, ''state_dict.pkl''])"
    by (simp add: example_externals_def)
  from access_counter_kept_and_saved [of "example_market_info True" Train quiet_responses
      example_world example_externals example_agent "[]" False empty_fs
      "snd (save_checkpoint example_externals [] False example_agent empty_fs)"] keeps ok
  have "\<exists>sd. fmlookup (tree (snd (save_checkpoint example_externals [] False example_agent empty_fs)))
            ([] @ [agent_name example_agent, ''state_dict.pkl'']) = Some (StateDictFile sd) \<and>
         sd_access_counter sd = access_counter example_agent"
    by blast
  then show ?thesis using ok by (simp add: example_agent_def)
qed

text \<open>
  A step that issues a reinforcement call for the identifiers s1 and s2: afterwards the
  \<open>access_counter\<close> of the agent is still empty.
\<close>

theorem access_counter_after_step_counterexample:
  "UpdateAccessCountWithFeedBack ''TSLA'' [PStr ''s1'', PStr ''s2''] (- 1) \<in>
     set (calls (snd (step ((2024, 1, 9), 260, PDict fmempty, PDict fmempty, PDict fmempty,
                            Some (Finite 2), False) Train
                        (feedback_responses (- 1) (2024, 1, 2)) reflected_world))) \<and>
   access_counter (self (snd (step ((2024, 1, 9), 260, PDict fmempty, PDict fmempty,
                            PDict fmempty, Some (Finite 2), False) Train
                        (feedback_responses (- 1) (2024, 1, 2)) reflected_world))) = fmempty"
  by (simp add: step_eval example_defs)

text \<open>
  C5. Saving the example agent, whose \<open>look_back_window_size\<close> is 3, into an empty
  directory succeeds, and restoring from the checkpoint yields the same agent except for
  \<open>look_back_window_size\<close>, which is 7: the state dictionary does not hold the attribute and
  \<open>load_checkpoint\<close> calls the constructor with the default.
\<close>

theorem checkpoint_loses_window_size:
  "look_back_window_size example_agent = 3 \<and>
   fst (save_checkpoint example_externals [] False example_agent empty_fs) = Ok () \<and>
   load_checkpoint example_externals [''agent_1'']
     (snd (save_checkpoint example_externals [] False example_agent empty_fs)) =
   Ok (example_agent\<lparr>look_back_window_size := 7\<rparr>)"
  by (simp add: checkpoint_eval example_agent_def)

end
